theory Spec2Isabelle
  imports Main
begin

section \<open>Go values as the association code inspects them\<close>

text \<open>
  \<^verbatim>\<open>association.go\<close> looks at its arguments through \<^verbatim>\<open>reflect\<close>: it asks for the
  kind of a value (struct, slice, pointer), for its type, and it reads and writes fields.
  The values below are the ones those calls distinguish. A struct carries the name of its
  type and its column fields; a field that is not listed holds the zero value \<open>0\<close>.
  A pointer is \<open>VPtr\<close> of its pointee or the nil pointer \<open>VNil\<close> of a pointee type.
  \<open>VInvalid\<close> is the zero \<^verbatim>\<open>reflect.Value\<close>: what \<^verbatim>\<open>reflect.ValueOf\<close> gives for a nil
  interface and \<^verbatim>\<open>reflect.Indirect\<close> for a nil pointer; it has no type and no kind that
  the code asks for. A nil slice and an empty slice are the same value here, and arrays
  are treated as slices.
\<close>

datatype gotype = TStruct string | TSlice gotype | TPtr gotype

datatype goval =
    VStruct string "(string \<times> int) list"
  | VSlice gotype "goval list"
  | VPtr goval
  | VNil gotype
  | VInvalid

text \<open>A Go panic ends the call; the model returns it as the left summand.\<close>

datatype panic =
    IndexOutOfRange
  | ElemOfInvalidType gotype
  | AppendOnNonSlice
  | AppendTypeMismatch
  | ValueElemOnNonPtr
  | FieldOfNonStruct
  | NilPointer
  | TypeOfZeroValue

datatype error =
    ErrLengthMismatch
  | ErrUnsupportedDataType gotype string
  | ErrFieldSet string
  | ErrExec string

definition bindP :: "panic + 'a \<Rightarrow> ('a \<Rightarrow> panic + 'b) \<Rightarrow> panic + 'b" where
  "bindP m f = (case m of Inl p \<Rightarrow> Inl p | Inr x \<Rightarrow> f x)"

fun type_of :: "goval \<Rightarrow> gotype option" where
  "type_of (VStruct n fs) = Some (TStruct n)"
| "type_of (VSlice t xs) = Some (TSlice t)"
| "type_of (VPtr v) = map_option TPtr (type_of v)"
| "type_of (VNil t) = Some (TPtr t)"
| "type_of VInvalid = None"

text \<open>\<^verbatim>\<open>Value.Type\<close> panics on the zero Value.\<close>

definition value_Type :: "goval \<Rightarrow> panic + gotype" where
  "value_Type v = (case type_of v of None \<Rightarrow> Inl TypeOfZeroValue | Some t \<Rightarrow> Inr t)"

text \<open>\<^verbatim>\<open>Type.AssignableTo\<close>: with no interface types among the values, identity of types.\<close>

definition AssignableTo :: "gotype \<Rightarrow> gotype \<Rightarrow> bool" where
  "AssignableTo t u = (t = u)"

text \<open>\<^verbatim>\<open>Type.Elem\<close> panics unless the type is an array, chan, map, pointer or slice.\<close>

fun type_Elem :: "gotype \<Rightarrow> panic + gotype" where
  "type_Elem (TStruct n) = Inl (ElemOfInvalidType (TStruct n))"
| "type_Elem (TSlice t) = Inr t"
| "type_Elem (TPtr t) = Inr t"

text \<open>
  \<^verbatim>\<open>Value.Elem\<close> panics unless the value is an interface or a pointer; of a nil pointer
  it is the zero Value.
\<close>

fun value_Elem :: "goval \<Rightarrow> panic + goval" where
  "value_Elem (VPtr v) = Inr v"
| "value_Elem (VNil t) = Inr VInvalid"
| "value_Elem v = Inl ValueElemOnNonPtr"

text \<open>
  \<^verbatim>\<open>reflect.Indirect\<close>: the pointee of a pointer (the zero Value for a nil pointer), any
  other value itself.
\<close>

fun Indirect :: "goval \<Rightarrow> goval" where
  "Indirect (VPtr v) = v"
| "Indirect (VNil t) = VInvalid"
| "Indirect v = v"

fun Zero :: "gotype \<Rightarrow> goval" where
  "Zero (TStruct n) = VStruct n []"
| "Zero (TSlice t) = VSlice t []"
| "Zero (TPtr t) = VNil t"

text \<open>\<^verbatim>\<open>reflect.New(t)\<close> is a pointer to a new zero value of \<open>t\<close>.\<close>

definition New :: "gotype \<Rightarrow> goval" where
  "New t = VPtr (Zero t)"

text \<open>
  \<^verbatim>\<open>reflect.Append(s, x)\<close> starts with \<^verbatim>\<open>s.mustBe(Slice)\<close> and panics when \<open>x\<close> is not
  assignable to the element type of \<open>s\<close>.
\<close>

fun reflect_Append :: "goval \<Rightarrow> goval \<Rightarrow> panic + goval" where
  "reflect_Append (VSlice t xs) x =
     (case type_of x of
        None \<Rightarrow> Inl AppendTypeMismatch
      | Some u \<Rightarrow> if AssignableTo u t then Inr (VSlice t (xs @ [x])) else Inl AppendTypeMismatch)"
| "reflect_Append s x = Inl AppendOnNonSlice"

section \<open>Schema metadata\<close>

datatype RelationshipType = HasOne | HasMany | BelongsTo | Many2Many

record Field =
  Name :: string
  DBName :: string

record Reference =
  PrimaryKey :: Field
  PrimaryValue :: string
  ForeignKey :: Field
  OwnPrimaryKey :: bool

section \<open>Query expressions and the persistence layer\<close>

datatype cell = CInt int | CStr string | CNull

datatype expr =
    Eq string string
  | IN "string list" "int list list"
  | And expr expr
  | Not expr

record JoinTable =
  Table :: string
  JoinModelType :: string
  QueryClauses :: "expr list"

text \<open>
  \<open>IndirectFieldType\<close> is the type of the relationship field (the field is not a pointer,
  so \<^verbatim>\<open>Field.FieldType\<close> is the same type); \<open>ModelType\<close> is
  \<^verbatim>\<open>FieldSchema.ModelType\<close>, the struct type of the related entity.
\<close>

record Relationship =
  RelName :: string
  Type :: RelationshipType
  IndirectFieldType :: gotype
  References :: "Reference list"
  ModelType :: string
  JoinTableOf :: "JoinTable option"

text \<open>
  An owner is a struct of the model: its column fields and the value its relationship
  field holds. \<^verbatim>\<open>Statement.ReflectValue\<close> is one owner or a slice of owners.
\<close>

record owner =
  columns :: "(string \<times> int) list"
  relation :: goval

datatype ownerset = One owner | Many "owner list"

text \<open>
  The verbs the association code calls on the persistence layer, with what it passes.
  \<open>PSave\<close> carries the columns of \<^verbatim>\<open>Select\<close> (\<open>None\<close> for a full save) and the owners as
  they are in memory at the call.
\<close>

datatype pcall =
    PFind "string option" "expr list"
  | PCount "string option" "expr list"
  | PSave "string list option" ownerset
  | PUpdateColumns "string option" "expr list" "string list"
  | PDelete string "expr list"

text \<open>
  Modelled from the spec: the query/execution layer (\<^verbatim>\<open>gorm.DB\<close>) is not in the
  sources. It "returns a generic execution error on failure"; which call fails is left to
  \<open>exec\<close>, a function of the calls made so far and the call at hand, and what a count
  query reports to \<open>counted\<close>. \<^verbatim>\<open>Delete\<close> reads \<^verbatim>\<open>tx.Error\<close> after a chain of calls
  whose result it discards, so a failure is recorded on the DB value itself: \<open>db_error\<close>
  keeps the first one. \<open>calls\<close> is the log of the verbs invoked.
\<close>

record layer =
  exec :: "pcall list \<Rightarrow> pcall \<Rightarrow> error option"
  counted :: "pcall list \<Rightarrow> int"

record db =
  db_error :: "error option"
  calls :: "pcall list"

definition run :: "layer \<Rightarrow> pcall \<Rightarrow> db \<Rightarrow> db" where
  "run L c d =
     \<lparr>db_error = (case db_error d of Some e \<Rightarrow> Some e | None \<Rightarrow> exec L (calls d) c),
      calls = calls d @ [c]\<rparr>"

section \<open>The association handle\<close>

text \<open>
  \<open>primary\<close> is the name of \<^verbatim>\<open>Statement.Schema.PrioritizedPrimaryField\<close>; \<open>owners\<close> is
  \<^verbatim>\<open>Statement.ReflectValue\<close>.
\<close>

record Association =
  DB :: db
  owners :: ownerset
  primary :: string
  Rel :: Relationship
  Error :: "error option"

subsection \<open>Field access\<close>

text \<open>
  Modelled from the spec: the field access capability ("given an entity value and a field
  identifier, get/set that field's value, including zero-value detection") lives in the
  \<^verbatim>\<open>schema\<close> package, which is not in the sources. Reading a column looks the field up by
  name; \<open>Field_Set\<close> stores a value of the field's type, unwraps one pointer to it (as for
  the result of \<^verbatim>\<open>reflect.New\<close>; a nil pointer gives the zero value), and fails on any
  other value.
\<close>

definition column_of :: "(string \<times> int) list \<Rightarrow> string \<Rightarrow> int" where
  "column_of fs n = (case map_of fs n of Some v \<Rightarrow> v | None \<Rightarrow> 0)"

fun struct_columns :: "goval \<Rightarrow> panic + (string \<times> int) list" where
  "struct_columns (VStruct n fs) = Inr fs"
| "struct_columns (VPtr (VStruct n fs)) = Inr fs"
| "struct_columns v = Inl FieldOfNonStruct"

definition Field_Set :: "Relationship \<Rightarrow> owner \<Rightarrow> goval \<Rightarrow> error + owner" where
  "Field_Set r ow v =
     (case type_of v of
        None \<Rightarrow> Inl (ErrFieldSet (RelName r))
      | Some t \<Rightarrow>
          if AssignableTo t (IndirectFieldType r) then Inr (ow\<lparr>relation := v\<rparr>)
          else if AssignableTo t (TPtr (IndirectFieldType r)) then
            Inr (ow\<lparr>relation := (case v of VPtr x \<Rightarrow> x | _ \<Rightarrow> Zero (IndirectFieldType r))\<rparr>)
          else Inl (ErrFieldSet (RelName r)))"

text \<open>
  Modelled from the spec: zero-value detection for the primary key, the second result of
  \<^verbatim>\<open>PrioritizedPrimaryField.ValueOf\<close>.
\<close>

definition primary_zero :: "string \<Rightarrow> owner \<Rightarrow> bool" where
  "primary_zero pk ow = (column_of (columns ow) pk = 0)"

text \<open>
  Modelled from the spec: \<^verbatim>\<open>Relationship.Field.ReflectValueOf\<close> reads the relationship
  field of a struct. \<^verbatim>\<open>appendToRelations\<close> calls it on \<^verbatim>\<open>reflectValue\<close>, which may be
  the slice of owners; reading a field of a slice panics in \<^verbatim>\<open>reflect\<close>.
\<close>

fun Field_ReflectValueOf :: "ownerset \<Rightarrow> panic + goval" where
  "Field_ReflectValueOf (One ow) = Inr (relation ow)"
| "Field_ReflectValueOf (Many os) = Inl FieldOfNonStruct"

text \<open>
  The place \<^verbatim>\<open>Field.Set(source, ...)\<close> writes to: the single owner, or the owner at an
  index of the slice.
\<close>

datatype source = Self | Index nat

fun get_source :: "ownerset \<Rightarrow> source \<Rightarrow> owner option" where
  "get_source (One ow) Self = Some ow"
| "get_source (Many os) (Index i) = (if i < length os then Some (os ! i) else None)"
| "get_source _ _ = None"

fun put_source :: "ownerset \<Rightarrow> source \<Rightarrow> owner \<Rightarrow> ownerset" where
  "put_source (One ow) Self ow' = One ow'"
| "put_source (Many os) (Index i) ow' = Many (os[i := ow'])"
| "put_source s _ _ = s"

text \<open>
  \<open>set_at\<close> is \<^verbatim>\<open>Relationship.Field.Set(source, v)\<close>: the returned error and the owners
  after the call.
\<close>

definition set_at :: "Association \<Rightarrow> source \<Rightarrow> goval \<Rightarrow> error option \<times> ownerset" where
  "set_at a src v =
     (case get_source (owners a) src of
        None \<Rightarrow> (Some (ErrFieldSet (RelName (Rel a))), owners a)
      | Some ow \<Rightarrow>
          (case Field_Set (Rel a) ow v of
             Inl e \<Rightarrow> (Some e, owners a)
           | Inr ow' \<Rightarrow> (None, put_source (owners a) src ow')))"


section \<open>saveAssociation\<close>

text \<open>
  The closures of \<^verbatim>\<open>saveAssociation\<close> assign \<^verbatim>\<open>association.Error\<close> and the local
  \<^verbatim>\<open>fieldValue\<close>; here they take and return them.
\<close>

definition appendToFieldValues ::
  "Relationship \<Rightarrow> gotype \<Rightarrow> error option \<times> goval \<Rightarrow> goval \<Rightarrow> panic + (error option \<times> goval)" where
  "appendToFieldValues r elemType st ev =
     bindP (value_Type ev) (\<lambda>ty.
       if AssignableTo ty elemType then
         bindP (reflect_Append (snd st) ev) (\<lambda>fv. Inr (fst st, fv))
       else
         bindP (type_Elem ty) (\<lambda>t.
           if AssignableTo t elemType then
             bindP (value_Elem ev) (\<lambda>x.
               bindP (reflect_Append (snd st) x) (\<lambda>fv. Inr (fst st, fv)))
           else Inr (Some (ErrUnsupportedDataType ty (RelName r)), snd st)))"

fun appendEach ::
  "Relationship \<Rightarrow> gotype \<Rightarrow> error option \<times> goval \<Rightarrow> goval list \<Rightarrow> panic + (error option \<times> goval)" where
  "appendEach r elemType st [] = Inr st"
| "appendEach r elemType st (x # xs) =
     bindP (appendToFieldValues r elemType st (Indirect x)) (\<lambda>st'. appendEach r elemType st' xs)"

definition assign_set :: "Association \<Rightarrow> source \<Rightarrow> goval \<Rightarrow> Association" where
  "assign_set a src v = a\<lparr>owners := snd (set_at a src v), Error := fst (set_at a src v)\<rparr>"

definition appendToRelations :: "Association \<Rightarrow> source \<Rightarrow> goval \<Rightarrow> bool \<Rightarrow> panic + Association" where
  "appendToRelations a src rv clear =
     (if Type (Rel a) = HasOne \<or> Type (Rel a) = BelongsTo then
        (case rv of
           VSlice t xs \<Rightarrow> (case xs of [] \<Rightarrow> Inr a | x # _ \<Rightarrow> Inr (assign_set a src x))
         | VStruct n fs \<Rightarrow> Inr (assign_set a src rv)
         | _ \<Rightarrow> Inr a)
      else
        bindP (type_Elem (IndirectFieldType (Rel a))) (\<lambda>elemType.
        bindP (Field_ReflectValueOf (owners a)) (\<lambda>fv0.
        bindP (let fieldValue = (if clear then New (IndirectFieldType (Rel a)) else Indirect fv0) in
               (case rv of
                  VSlice t xs \<Rightarrow> appendEach (Rel a) elemType (Error a, fieldValue) xs
                | VStruct n fs \<Rightarrow> appendToFieldValues (Rel a) elemType (Error a, fieldValue) rv
                | _ \<Rightarrow> Inr (Error a, fieldValue)))
          (\<lambda>st. if fst st = None then Inr (assign_set a src (snd st))
                else Inr (a\<lparr>Error := fst st\<rparr>)))))"

definition selectedColumns :: "Relationship \<Rightarrow> string list" where
  "selectedColumns r =
     RelName r # map (\<lambda>ref. Name (ForeignKey ref)) (filter (\<lambda>ref. \<not> OwnPrimaryKey ref) (References r))"

text \<open>The loop of the clear-with-no-values branch: the error of \<^verbatim>\<open>Set\<close> is not looked at.\<close>

fun clearEach :: "Association \<Rightarrow> nat list \<Rightarrow> Association" where
  "clearEach a [] = a"
| "clearEach a (i # is) =
     clearEach (a\<lparr>owners := snd (set_at a (Index i) (New (IndirectFieldType (Rel a))))\<rparr>) is"

definition zero_at :: "Association \<Rightarrow> source \<Rightarrow> bool" where
  "zero_at a src =
     (case get_source (owners a) src of Some ow \<Rightarrow> primary_zero (primary a) ow | None \<Rightarrow> False)"

text \<open>
  The loop over a slice of owners; \<^verbatim>\<open>values[i]\<close> panics past the end of \<^verbatim>\<open>values\<close>.
\<close>

fun saveMany :: "bool \<Rightarrow> goval list \<Rightarrow> nat list \<Rightarrow> Association \<times> bool \<Rightarrow> panic + (Association \<times> bool)" where
  "saveMany clear vals [] st = Inr st"
| "saveMany clear vals (i # is) st =
     (if i < length vals then
        bindP (appendToRelations (fst st) (Index i) (Indirect (vals ! i)) clear) (\<lambda>a'.
          saveMany clear vals is (a', if snd st then True else zero_at a' (Index i)))
      else Inl IndexOutOfRange)"

text \<open>The loop over the values for a single owner; \<open>idx\<close> is the index of the next value.\<close>

fun saveOne :: "bool \<Rightarrow> nat \<Rightarrow> goval list \<Rightarrow> Association \<Rightarrow> panic + Association" where
  "saveOne clear idx [] a = Inr a"
| "saveOne clear idx (v # vs) a =
     bindP (appendToRelations a Self (Indirect v) (clear \<and> idx = 0)) (\<lambda>a'.
       saveOne clear (Suc idx) vs a')"

definition Save :: "layer \<Rightarrow> bool \<Rightarrow> Association \<Rightarrow> Association" where
  "Save L hasZero a =
     a\<lparr>DB := run L (PSave (if hasZero then None else Some (selectedColumns (Rel a))) (owners a)) (DB a)\<rparr>"

definition saveAssociation :: "layer \<Rightarrow> bool \<Rightarrow> goval list \<Rightarrow> Association \<Rightarrow> panic + Association" where
  "saveAssociation L clear vals a =
     (case owners a of
        Many os \<Rightarrow>
          if length vals \<noteq> length os \<and> clear \<and> vals = [] then
            Inr (Save L False (clearEach a [0..<length os]))
          else
            bindP (saveMany clear vals [0..<length os]
                     (if length vals \<noteq> length os then a\<lparr>Error := Some ErrLengthMismatch\<rparr> else a, False))
              (\<lambda>st. Inr (Save L (snd st) (fst st)))
      | One ow \<Rightarrow>
          bindP (saveOne clear 0 vals
                   (if clear \<and> vals = []
                    then a\<lparr>owners := snd (set_at a Self (New (IndirectFieldType (Rel a))))\<rparr> else a))
            (\<lambda>a'. Inr (Save L (zero_at a' Self) a')))"

section \<open>Replace, Append, Clear\<close>

text \<open>
  Modelled from the spec: the key extractor (\<^verbatim>\<open>schema.GetIdentityFieldValuesMap\<close>,
  \<^verbatim>\<open>GetIdentityFieldValuesMapFromValues\<close>, \<^verbatim>\<open>utils.ToStringKey\<close>) and
  \<^verbatim>\<open>schema.ToQueryValues\<close> are not in the sources. The extractor "pulls key-column values
  out of one or many entity values"; zero keys are kept and a key is listed once; the
  canonical key of an entity is the tuple of its field values, standing for the string
  built from them. The columns of
  one logical key form "one composite membership expression (tuple-style)": \<open>IN\<close>.
\<close>

definition key_of :: "string list \<Rightarrow> (string \<times> int) list \<Rightarrow> int list" where
  "key_of names fs = map (column_of fs) names"

fun structs_of :: "goval list \<Rightarrow> panic + (string \<times> int) list list" where
  "structs_of [] = Inr []"
| "structs_of (x # xs) =
     bindP (struct_columns x) (\<lambda>fs. bindP (structs_of xs) (\<lambda>rest. Inr (fs # rest)))"

fun entities_of :: "goval \<Rightarrow> panic + (string \<times> int) list list" where
  "entities_of (VStruct n fs) = Inr [fs]"
| "entities_of (VSlice t xs) = structs_of xs"
| "entities_of v = Inr []"

fun owner_entities :: "ownerset \<Rightarrow> (string \<times> int) list list" where
  "owner_entities (One ow) = [columns ow]"
| "owner_entities (Many os) = map columns os"

definition identity_values :: "string list \<Rightarrow> (string \<times> int) list list \<Rightarrow> int list list" where
  "identity_values names es = remdups (map (key_of names) es)"

definition ToQueryValues :: "string list \<Rightarrow> int list list \<Rightarrow> expr" where
  "ToQueryValues foreignKeys vals = IN foreignKeys vals"

definition own_refs :: "Relationship \<Rightarrow> Reference list" where
  "own_refs r = filter OwnPrimaryKey (References r)"

definition other_refs :: "Relationship \<Rightarrow> Reference list" where
  "other_refs r = filter (\<lambda>ref. \<not> OwnPrimaryKey ref) (References r)"

text \<open>The \<^verbatim>\<open>HasOne, HasMany\<close> case of \<^verbatim>\<open>Replace\<close>.\<close>

definition replaceHas :: "layer \<Rightarrow> Association \<Rightarrow> Association" where
  "replaceHas L a =
     (let primaryFields = map (\<lambda>ref. Name (PrimaryKey ref)) (own_refs (Rel a));
          foreignKeys = map (\<lambda>ref. DBName (ForeignKey ref)) (other_refs (Rel a));
          updateMap = foreignKeys;
          vals = identity_values primaryFields (owner_entities (owners a))
      in a\<lparr>DB := run L (PUpdateColumns (Some (ModelType (Rel a)))
                         [ToQueryValues foreignKeys vals] updateMap) (DB a)\<rparr>)"

text \<open>The \<^verbatim>\<open>Many2Many\<close> case of \<^verbatim>\<open>Replace\<close>.\<close>

definition literal_conds :: "Relationship \<Rightarrow> expr list" where
  "literal_conds r =
     map (\<lambda>ref. Eq (DBName (ForeignKey ref)) (PrimaryValue ref))
       (filter (\<lambda>ref. PrimaryValue ref \<noteq> []) (other_refs r))"

definition rel_refs :: "Relationship \<Rightarrow> Reference list" where
  "rel_refs r = filter (\<lambda>ref. PrimaryValue ref = []) (other_refs r)"

definition generateConds :: "Relationship \<Rightarrow> owner \<Rightarrow> panic + expr" where
  "generateConds r rv =
     (let primaryFields = map (\<lambda>ref. Name (PrimaryKey ref)) (own_refs r);
          foreignKeys = map (\<lambda>ref. DBName (ForeignKey ref)) (own_refs r);
          relPrimaryFields = map (\<lambda>ref. Name (PrimaryKey ref)) (rel_refs r);
          relForeignKeys = map (\<lambda>ref. DBName (ForeignKey ref)) (rel_refs r)
      in bindP (entities_of (relation rv)) (\<lambda>es.
           Inr (And (ToQueryValues foreignKeys (identity_values primaryFields [columns rv]))
                    (Not (ToQueryValues relForeignKeys (identity_values relPrimaryFields es))))))"

fun generateEach :: "Relationship \<Rightarrow> owner list \<Rightarrow> panic + expr list" where
  "generateEach r [] = Inr []"
| "generateEach r (ow # os) =
     bindP (generateConds r ow) (\<lambda>c. bindP (generateEach r os) (\<lambda>cs. Inr (c # cs)))"

fun owner_list :: "ownerset \<Rightarrow> owner list" where
  "owner_list (One ow) = [ow]"
| "owner_list (Many os) = os"

definition replaceMany2Many :: "layer \<Rightarrow> Association \<Rightarrow> panic + Association" where
  "replaceMany2Many L a =
     (case JoinTableOf (Rel a) of
        None \<Rightarrow> Inl NilPointer
      | Some jt \<Rightarrow>
          bindP (generateEach (Rel a) (owner_list (owners a))) (\<lambda>cs.
            Inr (a\<lparr>DB := run L (PDelete (JoinModelType jt) (literal_conds (Rel a) @ cs)) (DB a)\<rparr>)))"

definition Replace :: "layer \<Rightarrow> goval list \<Rightarrow> Association \<Rightarrow> panic + Association" where
  "Replace L vals a =
     (if Error a = None then
        bindP (saveAssociation L True vals a) (\<lambda>a'.
          case Type (Rel a') of
            HasOne \<Rightarrow> Inr (replaceHas L a')
          | HasMany \<Rightarrow> Inr (replaceHas L a')
          | Many2Many \<Rightarrow> replaceMany2Many L a'
          | BelongsTo \<Rightarrow> Inr a')
      else Inr a)"

text \<open>
  \<^verbatim>\<open>association.Error = association.Replace(values...)\<close> assigns the handle the error
  \<^verbatim>\<open>Replace\<close> returns, which is the handle's own.
\<close>

definition Append :: "layer \<Rightarrow> goval list \<Rightarrow> Association \<Rightarrow> panic + Association" where
  "Append L vals a =
     (if Error a = None then
        (if Type (Rel a) = HasOne \<or> Type (Rel a) = BelongsTo then
           (if length vals > 0 then Replace L vals a else Inr a)
         else saveAssociation L False vals a)
      else Inr a)"

definition Clear :: "layer \<Rightarrow> Association \<Rightarrow> panic + Association" where
  "Clear L a = Replace L [] a"

section \<open>Find, Count, Delete\<close>

text \<open>
  Modelled from the spec: the condition builder (\<^verbatim>\<open>Relationship.ToQueryConditions\<close>) is
  not in the sources. For each reference it takes the owner-side value (the primary key if
  the owner holds it, else the stored foreign key) of every owner and emits a membership
  expression on the related-side column, all columns of the key in one composite
  expression; with a join table the columns are the join table's owner-side keys; a
  literal value gives an equality. A single owner gives a membership of one tuple.
\<close>

definition owner_side :: "Reference \<Rightarrow> string" where
  "owner_side ref = (if OwnPrimaryKey ref then Name (PrimaryKey ref) else Name (ForeignKey ref))"

definition related_side :: "Reference \<Rightarrow> string" where
  "related_side ref = (if OwnPrimaryKey ref then DBName (ForeignKey ref) else DBName (PrimaryKey ref))"

definition ToQueryConditions :: "Relationship \<Rightarrow> ownerset \<Rightarrow> expr list" where
  "ToQueryConditions r os =
     (let literal = map (\<lambda>ref. Eq (DBName (ForeignKey ref)) (PrimaryValue ref))
                      (filter (\<lambda>ref. PrimaryValue ref \<noteq> []) (References r));
          refs = (case JoinTableOf r of
                    None \<Rightarrow> filter (\<lambda>ref. PrimaryValue ref = []) (References r)
                  | Some jt \<Rightarrow> own_refs r)
      in literal @ [IN (map related_side refs) (identity_values (map owner_side refs) (owner_entities os))])"

definition join_name :: "Relationship \<Rightarrow> string option" where
  "join_name r = map_option Table (JoinTableOf r)"

definition join_clauses :: "Relationship \<Rightarrow> expr list" where
  "join_clauses r = (case JoinTableOf r of None \<Rightarrow> [] | Some jt \<Rightarrow> QueryClauses jt)"

text \<open>\<^verbatim>\<open>Find(out, conds...)\<close>: \<open>out\<close> is filled by the layer; \<open>conds\<close> are passed on.\<close>

definition Find :: "layer \<Rightarrow> expr list \<Rightarrow> Association \<Rightarrow> Association" where
  "Find L conds a =
     (if Error a = None then
        (let tx = run L (PFind (join_name (Rel a))
                           (join_clauses (Rel a) @ ToQueryConditions (Rel a) (owners a) @ conds)) (DB a)
         in a\<lparr>DB := tx, Error := db_error tx\<rparr>)
      else a)"

text \<open>\<^verbatim>\<open>Count\<close> returns the count only; the handle is the second component.\<close>

definition Count :: "layer \<Rightarrow> Association \<Rightarrow> int \<times> Association" where
  "Count L a =
     (if Error a = None then
        (let tx = run L (PCount (join_name (Rel a))
                           (join_clauses (Rel a) @ ToQueryConditions (Rel a) (owners a))) (DB a)
         in (counted L (calls tx), a\<lparr>DB := tx, Error := db_error tx\<rparr>))
      else (0, a))"

text \<open>The references \<^verbatim>\<open>Delete\<close> keeps, and the fields it reads the passed values by.\<close>

definition delete_refs :: "Relationship \<Rightarrow> Reference list" where
  "delete_refs r =
     filter (\<lambda>ref. PrimaryValue ref = [] \<and> (JoinTableOf r = None \<or> \<not> OwnPrimaryKey ref)) (References r)"

definition relFields :: "Relationship \<Rightarrow> string list" where
  "relFields r =
     map (\<lambda>ref. if OwnPrimaryKey ref then Name (ForeignKey ref) else Name (PrimaryKey ref)) (delete_refs r)"

fun values_entities :: "goval list \<Rightarrow> panic + (string \<times> int) list list" where
  "values_entities [] = Inr []"
| "values_entities (v # vs) =
     bindP (entities_of (Indirect v)) (\<lambda>es. bindP (values_entities vs) (\<lambda>rest. Inr (es @ rest)))"

fun is_zero :: "goval \<Rightarrow> bool" where
  "is_zero (VStruct n fs) = list_all (\<lambda>kv. snd kv = 0) fs"
| "is_zero (VSlice t xs) = (xs = [])"
| "is_zero (VPtr v) = False"
| "is_zero (VNil t) = True"
| "is_zero VInvalid = True"

text \<open>
  The loop of \<^verbatim>\<open>cleanUpDeletedRelations\<close> over a collection field: the elements whose
  key is not among the deleted ones are kept.
\<close>

definition value_key :: "string list \<Rightarrow> goval \<Rightarrow> panic + int list" where
  "value_key names x =
     (if names = [] then Inr [] else bindP (struct_columns x) (\<lambda>fs. Inr (key_of names fs)))"

fun keepValid :: "string list \<Rightarrow> int list list \<Rightarrow> goval \<Rightarrow> goval list \<Rightarrow> panic + goval" where
  "keepValid names relValuesMap valid [] = Inr valid"
| "keepValid names relValuesMap valid (x # xs) =
     bindP (value_key names x) (\<lambda>k.
       if k \<in> set relValuesMap then keepValid names relValuesMap valid xs
       else bindP (reflect_Append valid x) (\<lambda>valid'. keepValid names relValuesMap valid' xs))"

definition cleanUpDeletedRelations :: "Relationship \<Rightarrow> int list list \<Rightarrow> owner \<Rightarrow> panic + owner" where
  "cleanUpDeletedRelations r relValuesMap data =
     (if \<not> is_zero (relation data) then
        (case Indirect (relation data) of
           VSlice t xs \<Rightarrow>
             bindP (keepValid (relFields r) relValuesMap (Zero (IndirectFieldType r)) xs) (\<lambda>valid.
               case Field_Set r data valid of Inl e \<Rightarrow> Inr data | Inr data' \<Rightarrow> Inr data')
         | VStruct n fs \<Rightarrow>
             if key_of (relFields r) (columns data) \<in> set relValuesMap then
               (case Field_Set r data (Zero (TStruct (ModelType r))) of
                  Inl e \<Rightarrow> Inr data | Inr data' \<Rightarrow> Inr data')
             else Inr data
         | _ \<Rightarrow> Inr data)
      else Inr data)"

fun cleanUpEach :: "Relationship \<Rightarrow> int list list \<Rightarrow> owner list \<Rightarrow> panic + owner list" where
  "cleanUpEach r m [] = Inr []"
| "cleanUpEach r m (ow # os) =
     bindP (cleanUpDeletedRelations r m ow) (\<lambda>ow'.
       bindP (cleanUpEach r m os) (\<lambda>os'. Inr (ow' # os')))"

fun cleanUpOwners :: "Relationship \<Rightarrow> int list list \<Rightarrow> ownerset \<Rightarrow> panic + ownerset" where
  "cleanUpOwners r m (One ow) = bindP (cleanUpDeletedRelations r m ow) (\<lambda>ow'. Inr (One ow'))"
| "cleanUpOwners r m (Many os) = bindP (cleanUpEach r m os) (\<lambda>os'. Inr (Many os'))"

definition delete_call :: "Relationship \<Rightarrow> expr list \<Rightarrow> string list \<Rightarrow> panic + pcall" where
  "delete_call r conds updateAttrs =
     (case Type r of
        HasOne \<Rightarrow> Inr (PUpdateColumns (Some (ModelType r)) conds updateAttrs)
      | HasMany \<Rightarrow> Inr (PUpdateColumns (Some (ModelType r)) conds updateAttrs)
      | BelongsTo \<Rightarrow> Inr (PUpdateColumns None conds updateAttrs)
      | Many2Many \<Rightarrow>
          (case JoinTableOf r of
             None \<Rightarrow> Inl NilPointer
           | Some jt \<Rightarrow> Inr (PDelete (JoinModelType jt) conds)))"

definition Delete :: "layer \<Rightarrow> goval list \<Rightarrow> Association \<Rightarrow> panic + Association" where
  "Delete L vals a =
     (if Error a = None then
        (let rel = Rel a;
             conds = ToQueryConditions rel (owners a);
             foreignKeys = map (\<lambda>ref. DBName (ForeignKey ref)) (delete_refs rel);
             updateAttrs = foreignKeys
         in bindP (values_entities vals) (\<lambda>es.
              let relValuesMap = identity_values (relFields rel) es in
              bindP (delete_call rel (ToQueryValues foreignKeys relValuesMap # conds) updateAttrs) (\<lambda>c.
                let tx = run L c (DB a) in
                if db_error tx = None then
                  bindP (cleanUpOwners rel relValuesMap (owners a)) (\<lambda>os'.
                    Inr (a\<lparr>DB := tx, owners := os'\<rparr>))
                else Inr (a\<lparr>DB := tx, Error := db_error tx\<rparr>))))
      else Inr a)"

section \<open>Example schemas and owners\<close>

text \<open>
  A user with one pet and many posts, belonging to a company, with tags through the join
  table \<open>user_tags\<close>; a persistence layer that never fails, and one whose updates and
  deletes fail.
\<close>

definition fld :: "string \<Rightarrow> string \<Rightarrow> Field" where
  "fld n d = \<lparr>Name = n, DBName = d\<rparr>"

definition userHas :: Reference where
  "userHas = \<lparr>PrimaryKey = fld ''ID'' ''id'', PrimaryValue = [],
              ForeignKey = fld ''UserID'' ''user_id'', OwnPrimaryKey = True\<rparr>"

definition petRel :: Relationship where
  "petRel = \<lparr>RelName = ''Pet'', Type = HasOne, IndirectFieldType = TStruct ''Pet'',
             References = [userHas], ModelType = ''Pet'', JoinTableOf = None\<rparr>"

definition postsRel :: Relationship where
  "postsRel = \<lparr>RelName = ''Posts'', Type = HasMany, IndirectFieldType = TSlice (TStruct ''Post''),
               References = [userHas], ModelType = ''Post'', JoinTableOf = None\<rparr>"

definition companyRel :: Relationship where
  "companyRel = \<lparr>RelName = ''Company'', Type = BelongsTo, IndirectFieldType = TStruct ''Company'',
                 References = [\<lparr>PrimaryKey = fld ''ID'' ''id'', PrimaryValue = [],
                                ForeignKey = fld ''CompanyID'' ''company_id'', OwnPrimaryKey = False\<rparr>],
                 ModelType = ''Company'', JoinTableOf = None\<rparr>"

definition tagsRel :: Relationship where
  "tagsRel = \<lparr>RelName = ''Tags'', Type = Many2Many, IndirectFieldType = TSlice (TStruct ''Tag''),
              References = [userHas,
                            \<lparr>PrimaryKey = fld ''ID'' ''id'', PrimaryValue = [],
                             ForeignKey = fld ''TagID'' ''tag_id'', OwnPrimaryKey = False\<rparr>],
              ModelType = ''Tag'',
              JoinTableOf = Some \<lparr>Table = ''user_tags'', JoinModelType = ''user_tags'',
                                  QueryClauses = []\<rparr>\<rparr>"

definition okLayer :: layer where
  "okLayer = \<lparr>exec = (\<lambda>log c. None), counted = (\<lambda>log. 0)\<rparr>"

definition failingLayer :: layer where
  "failingLayer =
     \<lparr>exec = (\<lambda>log c. case c of PUpdateColumns m cs us \<Rightarrow> Some (ErrExec ''update failed'')
                              | PDelete m cs \<Rightarrow> Some (ErrExec ''delete failed'')
                              | _ \<Rightarrow> None),
      counted = (\<lambda>log. 0)\<rparr>"

definition entity :: "string \<Rightarrow> int \<Rightarrow> goval" where
  "entity n i = VStruct n [(''ID'', i)]"

definition user :: "int \<Rightarrow> goval \<Rightarrow> owner" where
  "user i v = \<lparr>columns = [(''ID'', i)], relation = v\<rparr>"

definition handle :: "Relationship \<Rightarrow> ownerset \<Rightarrow> Association" where
  "handle r os = \<lparr>DB = \<lparr>db_error = None, calls = []\<rparr>, owners = os, primary = ''ID'',
                  Rel = r, Error = None\<rparr>"

definition commentsRel :: Relationship where
  "commentsRel = \<lparr>RelName = ''Comments'', Type = HasMany,
                  IndirectFieldType = TSlice (TStruct ''Comment''),
                  References = [userHas], ModelType = ''Comment'', JoinTableOf = None\<rparr>"

text \<open>What a caller can observe of a call: the handle's error, the log, the owners.\<close>

definition outcome :: "panic + Association \<Rightarrow> panic + (error option \<times> pcall list \<times> ownerset)" where
  "outcome res = (case res of Inl p \<Rightarrow> Inl p | Inr a \<Rightarrow> Inr (Error a, calls (DB a), owners a))"

section \<open>Rows and what a call does to them\<close>

text \<open>
  Modelled from the spec: the execution of a query is not in the sources. A row gives each
  column a cell; an expression holds of a row as its name says (a membership compares the
  tuple of the row's columns with the listed tuples). \<^verbatim>\<open>UpdateColumns\<close> sets the columns
  of its update map to null in the rows of which every expression passed to it holds. The
  delete of a Many2Many \<^verbatim>\<open>Replace\<close> "deletes join-table rows whose owner-key matches the
  owner(s) and whose related-key is NOT among the new values' keys, scoped per distinct
  owner when OwnerSet is a collection": of the list \<^verbatim>\<open>Replace\<close> passes, first the literal
  conditions of the join table and then one condition for each owner, a row is removed
  when the literal conditions hold of it and the condition of some owner does.
\<close>

type_synonym row = "string \<Rightarrow> cell"

fun sat :: "row \<Rightarrow> expr \<Rightarrow> bool" where
  "sat rw (Eq c v) = (rw c = CStr v)"
| "sat rw (IN cols tuples) = (map rw cols \<in> set (map (map CInt) tuples))"
| "sat rw (And e f) = (sat rw e \<and> sat rw f)"
| "sat rw (Not e) = (\<not> sat rw e)"

fun deleted_by :: "Relationship \<Rightarrow> pcall \<Rightarrow> row \<Rightarrow> bool" where
  "deleted_by r (PDelete m conds) rw =
     (list_all (sat rw) (take (length (literal_conds r)) conds)
      \<and> list_ex (sat rw) (drop (length (literal_conds r)) conds))"
| "deleted_by r c rw = False"

fun updated_by :: "pcall \<Rightarrow> row \<Rightarrow> row" where
  "updated_by (PUpdateColumns m conds cols) rw =
     (if list_all (sat rw) conds then (\<lambda>c. if c \<in> set cols then CNull else rw c) else rw)"
| "updated_by c rw = rw"

text \<open>
  The keys a join row is compared by: its owner-side and related-side columns, the key of
  an owner, and the keys of the values an owner's relationship field holds.
\<close>

definition row_owner_key :: "Relationship \<Rightarrow> row \<Rightarrow> cell list" where
  "row_owner_key r rw = map rw (map (\<lambda>ref. DBName (ForeignKey ref)) (own_refs r))"

definition row_related_key :: "Relationship \<Rightarrow> row \<Rightarrow> cell list" where
  "row_related_key r rw = map rw (map (\<lambda>ref. DBName (ForeignKey ref)) (rel_refs r))"

definition owner_key :: "Relationship \<Rightarrow> owner \<Rightarrow> cell list" where
  "owner_key r ow = map CInt (key_of (map (\<lambda>ref. Name (PrimaryKey ref)) (own_refs r)) (columns ow))"

definition related_keys :: "Relationship \<Rightarrow> owner \<Rightarrow> cell list list" where
  "related_keys r ow =
     (case entities_of (relation ow) of
        Inl p \<Rightarrow> []
      | Inr es \<Rightarrow> map (\<lambda>fs. map CInt (key_of (map (\<lambda>ref. Name (PrimaryKey ref)) (rel_refs r)) fs)) es)"

text \<open>
  The values a \<open>Replace\<close> or \<open>Append\<close> hands to an owner, read off the arguments: a
  struct argument is one value, a slice argument gives its elements, and a pointer to a
  value of the element type stands for its pointee. With a single owner all arguments are
  its values; with a slice of owners the argument at an owner's index is. \<open>value_keys\<close>
  are their related-side keys.
\<close>

fun elements :: "goval \<Rightarrow> goval list" where
  "elements (VStruct n fs) = [VStruct n fs]"
| "elements (VSlice t xs) = map Indirect xs"
| "elements v = []"

definition unwrap :: "gotype \<Rightarrow> goval \<Rightarrow> goval" where
  "unwrap t ev = (if type_of ev = Some t then ev else (case ev of VPtr x \<Rightarrow> x | _ \<Rightarrow> ev))"

definition new_values :: "gotype \<Rightarrow> goval list \<Rightarrow> goval list" where
  "new_values t vals = concat (map (\<lambda>v. map (unwrap t) (elements (Indirect v))) vals)"

fun new_values_at :: "gotype \<Rightarrow> ownerset \<Rightarrow> goval list \<Rightarrow> nat \<Rightarrow> goval list" where
  "new_values_at t (One ow) vals i = new_values t vals"
| "new_values_at t (Many os) vals i = (if i < length vals then new_values t [vals ! i] else [])"

definition value_keys :: "Relationship \<Rightarrow> goval list \<Rightarrow> cell list list" where
  "value_keys r vs =
     (case structs_of vs of
        Inl p \<Rightarrow> []
      | Inr es \<Rightarrow> map (\<lambda>fs. map CInt (key_of (map (\<lambda>ref. Name (PrimaryKey ref)) (rel_refs r)) fs)) es)"

definition postRow :: row where
  "postRow = (\<lambda>c. if c = ''id'' then CInt 10 else if c = ''user_id'' then CInt 1 else CNull)"

definition employee :: "int \<Rightarrow> int \<Rightarrow> owner" where
  "employee i c = \<lparr>columns = [(''ID'', i), (''CompanyID'', c)], relation = entity ''Company'' c\<rparr>"

definition joinRow :: "int \<Rightarrow> int \<Rightarrow> row" where
  "joinRow u t = (\<lambda>c. if c = ''user_id'' then CInt u else if c = ''tag_id'' then CInt t else CNull)"

definition comments :: goval where
  "comments = VSlice (TSlice (TStruct ''Comment'')) [VSlice (TStruct ''Comment'') []]"

definition tagsHandle :: Association where
  "tagsHandle = handle tagsRel (One (user 1 (VSlice (TStruct ''Tag'') [entity ''Tag'' 5])))"

definition petHandle :: Association where
  "petHandle = handle petRel (One (user 1 (entity ''Pet'' 0)))"

text \<open>The error and the owners of a result, a panic passed through.\<close>

definition error_of :: "panic + Association \<Rightarrow> panic + error option" where
  "error_of res = (case res of Inl p \<Rightarrow> Inl p | Inr a \<Rightarrow> Inr (Error a))"

definition owners_of :: "panic + Association \<Rightarrow> panic + ownerset" where
  "owners_of res = (case res of Inl p \<Rightarrow> Inl p | Inr a \<Rightarrow> Inr (owners a))"

section \<open>Basic facts\<close>

lemma bindP_Inr: "bindP m f = Inr y \<Longrightarrow> \<exists>x. m = Inr x \<and> f x = Inr y"
  by (cases m) (simp_all add: bindP_def)

lemma Rel_assign_set: "Rel (assign_set a src v) = Rel a"
  by (simp add: assign_set_def)

lemma Rel_appendToRelations: "appendToRelations a src rv clear = Inr a' \<Longrightarrow> Rel a' = Rel a"
  unfolding appendToRelations_def
  by (auto simp: Rel_assign_set split: if_splits goval.splits list.splits dest!: bindP_Inr)

lemma Rel_saveOne: "saveOne clear idx vs a = Inr a' \<Longrightarrow> Rel a' = Rel a"
proof (induction vs arbitrary: a idx)
  case Nil
  then show ?case by simp
next
  case (Cons v vs)
  from Cons.prems obtain b where b: "appendToRelations a Self (Indirect v) (clear \<and> idx = 0) = Inr b"
    and r: "saveOne clear (Suc idx) vs b = Inr a'"
    by (auto dest!: bindP_Inr)
  from Cons.IH [OF r] Rel_appendToRelations [OF b] show ?case by simp
qed

lemma Rel_saveMany: "saveMany clear vals is st = Inr st' \<Longrightarrow> Rel (fst st') = Rel (fst st)"
proof (induction "is" arbitrary: st)
  case Nil
  then show ?case by simp
next
  case (Cons i "is")
  from Cons.prems obtain b where b: "appendToRelations (fst st) (Index i) (Indirect (vals ! i)) clear = Inr b"
    and r: "saveMany clear vals is (b, if snd st then True else zero_at b (Index i)) = Inr st'"
    by (auto split: if_splits dest!: bindP_Inr)
  from Cons.IH [OF r] Rel_appendToRelations [OF b] show ?case by simp
qed

lemma Rel_clearEach: "Rel (clearEach a is) = Rel a"
  by (induction "is" arbitrary: a) simp_all

lemma Rel_Save: "Rel (Save L hz a) = Rel a"
  by (simp add: Save_def)

lemma Rel_saveAssociation: "saveAssociation L clear vals a = Inr a' \<Longrightarrow> Rel a' = Rel a"
  unfolding saveAssociation_def
  by (auto simp: Rel_Save Rel_clearEach split: ownerset.splits if_splits
           dest!: bindP_Inr dest: Rel_saveOne Rel_saveMany)

lemma type_of_Zero: "type_of (Zero t) = Some t"
  by (induction t) simp_all

lemma TPtr_neq: "TPtr t \<noteq> t"
  by (induction t) simp_all

section \<open>Append with no values on a singular relationship\<close>

text \<open>
  C10. For a HasOne or BelongsTo relationship and a handle with no error, \<open>Append\<close> with no
  values returns the handle as it was: the error stays nil, the log of persistence calls
  and the owners' relationship fields are unchanged.
\<close>

theorem Append_no_values_noop:
  assumes "Error a = None" and "Type (Rel a) = HasOne \<or> Type (Rel a) = BelongsTo"
  shows "Append L [] a = Inr a"
  using assms by (simp add: Append_def)

theorem Append_no_values_noop_witness:
  "Error (handle petRel (One (user 1 (entity ''Pet'' 7)))) = None
   \<and> Type (Rel (handle petRel (One (user 1 (entity ''Pet'' 7))))) = HasOne
   \<and> Append okLayer [] (handle petRel (One (user 1 (entity ''Pet'' 7))))
       = Inr (handle petRel (One (user 1 (entity ''Pet'' 7))))"
proof -
  have e: "Error (handle petRel (One (user 1 (entity ''Pet'' 7)))) = None"
    by (simp add: handle_def)
  have t: "Type (Rel (handle petRel (One (user 1 (entity ''Pet'' 7))))) = HasOne"
    by (simp add: handle_def petRel_def)
  from Append_no_values_noop [OF e disjI1 [OF t], of okLayer] e t show ?thesis by simp
qed

section \<open>The sticky error\<close>

lemma error_set_short_circuits:
  assumes "Error a = Some e"
  shows "Find L conds a = a" and "Append L vals a = Inr a" and "Replace L vals a = Inr a"
    and "Delete L vals a = Inr a" and "Clear L a = Inr a" and "Count L a = (0, a)"
  using assms by (simp_all add: Find_def Append_def Replace_def Delete_def Clear_def Count_def)

text \<open>
  C1. Every operation on a handle whose error is set returns the handle untouched
  (\<open>error_set_short_circuits\<close>). Inside \<open>Replace\<close> the error is not looked at again after
  \<open>saveAssociation\<close>: replacing the posts of user 1 by a slice of slices of comments makes
  \<open>saveAssociation\<close> record the unsupported data type, and both the save and the update of
  the stale rows are still issued.
\<close>

theorem Replace_stale_phase_runs_after_save_error:
  "outcome (Replace okLayer [VSlice (TSlice (TStruct ''Comment'')) [VSlice (TStruct ''Comment'') []]]
              (handle postsRel (One (user 1 (VSlice (TStruct ''Post'') [entity ''Post'' 3])))))
   = Inr (Some (ErrUnsupportedDataType (TSlice (TStruct ''Comment'')) ''Posts''),
          [PSave (Some [''Posts'']) (One (user 1 (VSlice (TStruct ''Post'') [entity ''Post'' 3]))),
           PUpdateColumns (Some ''Post'') [IN [] [[1]]] []],
          One (user 1 (VSlice (TStruct ''Post'') [entity ''Post'' 3])))"
  by code_simp

section \<open>Replace with values on a collection relationship\<close>

text \<open>
  C2. \<open>Replace\<close> of the posts of user 1 by post 10 does not return: with \<open>clear\<close> set the
  field value starts as \<^verbatim>\<open>reflect.New\<close> of the slice type, a pointer, and
  \<^verbatim>\<open>reflect.Append\<close> panics on it. No second \<open>Replace\<close> and no \<open>Find\<close> is reached.
\<close>

theorem Replace_with_values_panics:
  "Replace okLayer [entity ''Post'' 10] (handle postsRel (One (user 1 (VSlice (TStruct ''Post'') []))))
   = Inl AppendOnNonSlice"
  by code_simp

section \<open>The length of the values\<close>

text \<open>
  C3. One owner in a slice and two pets: the mismatch is recorded, the loop runs all the
  same, \<^verbatim>\<open>Field.Set\<close> overwrites the error with nil, and a save and an update are
  issued. Two owners and one pet: \<^verbatim>\<open>values[1]\<close> panics after the first owner is set.
\<close>

theorem length_mismatch_still_persists:
  "outcome (Replace okLayer [entity ''Pet'' 1, entity ''Pet'' 2]
              (handle petRel (Many [user 1 (entity ''Pet'' 0)])))
   = Inr (None,
          [PSave (Some [''Pet'']) (Many [user 1 (entity ''Pet'' 1)]),
           PUpdateColumns (Some ''Pet'') [IN [] [[1]]] []],
          Many [user 1 (entity ''Pet'' 1)])
   \<and> Append okLayer [entity ''Pet'' 1]
         (handle petRel (Many [user 1 (entity ''Pet'' 0), user 2 (entity ''Pet'' 0)]))
       = Inl IndexOutOfRange"
  by code_simp

section \<open>Errors of the persistence layer\<close>

text \<open>
  C5. With a layer whose updates and deletes fail, \<open>Replace\<close> of the pet of user 1 and
  \<open>Clear\<close> of the tags of user 1 leave the handle's error nil: the failure is on the DB
  value only.
\<close>

theorem Replace_drops_persistence_error:
  "(case Replace failingLayer [entity ''Pet'' 1] (handle petRel (One (user 1 (entity ''Pet'' 0)))) of
      Inl p \<Rightarrow> False
    | Inr a \<Rightarrow> Error a = None \<and> db_error (DB a) = Some (ErrExec ''update failed''))
   \<and> (case Clear failingLayer (handle tagsRel (One (user 1 (VSlice (TStruct ''Tag'') [entity ''Tag'' 5])))) of
      Inl p \<Rightarrow> False
    | Inr a \<Rightarrow> Error a = None \<and> db_error (DB a) = Some (ErrExec ''delete failed''))"
  by code_simp

section \<open>Delete and the owner's field\<close>

text \<open>
  When the call to the layer fails, \<open>Delete\<close> leaves the owners as they were and puts
  the failure on the handle. When it succeeds, a collection field keeps exactly the
  elements whose key is not among the keys of the passed values.
\<close>

lemma Delete_failure_keeps_memory:
  assumes "Error a = None" and "Delete L vals a = Inr a'" and "db_error (DB a') \<noteq> None"
  shows "owners a' = owners a \<and> Error a' = db_error (DB a')"
  using assms unfolding Delete_def Let_def
  by (auto split: if_splits dest!: bindP_Inr)

lemma keepValid_filter:
  assumes "\<forall>x \<in> set xs. \<exists>fs. x = VStruct n fs"
  shows "keepValid names m (VSlice (TStruct n) acc) xs
         = Inr (VSlice (TStruct n)
                  (acc @ filter (\<lambda>x. case x of VStruct n fs \<Rightarrow> key_of names fs \<notin> set m | _ \<Rightarrow> True) xs))"
  using assms
proof (induction xs arbitrary: acc)
  case Nil
  then show ?case by simp
next
  case (Cons x xs)
  from Cons.prems obtain fs where x: "x = VStruct n fs" by auto
  have k: "value_key names x = Inr (key_of names fs)"
    by (simp add: value_key_def x bindP_def key_of_def)
  from Cons.prems have rest: "\<forall>x \<in> set xs. \<exists>fs. x = VStruct n fs" by simp
  show ?case
    using Cons.IH [OF rest] k x by (simp add: bindP_def AssignableTo_def)
qed

lemma cleanUp_collection:
  assumes "relation data = VSlice (TStruct n) xs" and "IndirectFieldType r = TSlice (TStruct n)"
    and "\<forall>x \<in> set xs. \<exists>fs. x = VStruct n fs"
  shows "cleanUpDeletedRelations r m data
         = Inr (data\<lparr>relation := VSlice (TStruct n)
                  (filter (\<lambda>x. case x of VStruct n fs \<Rightarrow> key_of (relFields r) fs \<notin> set m | _ \<Rightarrow> True) xs)\<rparr>)"
proof (cases "xs = []")
  case True
  with assms(1) show ?thesis by (simp add: cleanUpDeletedRelations_def)
next
  case False
  with assms(1,2) keepValid_filter [OF assms(3), of "relFields r" m "[]"] show ?thesis
    by (simp add: cleanUpDeletedRelations_def bindP_def Field_Set_def AssignableTo_def)
qed

text \<open>
  C7. For a singular field \<open>cleanUpDeletedRelations\<close> reads the key from the owner, not
  from the value the field holds. User 1 of company 5, \<open>Delete\<close> of company 5: the update
  succeeds and the field still holds company 5. User 1 of company 5, \<open>Delete\<close> of
  company 1: the field is zeroed, though its key is 5.
\<close>

theorem Delete_singular_reads_owner_key:
  "outcome (Delete okLayer [entity ''Company'' 5] (handle companyRel (One (employee 1 5))))
   = Inr (None,
          [PUpdateColumns None [IN [''company_id''] [[5]], IN [''id''] [[5]]] [''company_id'']],
          One (employee 1 5))
   \<and> outcome (Delete okLayer [entity ''Company'' 1] (handle companyRel (One (employee 1 5))))
   = Inr (None,
          [PUpdateColumns None [IN [''company_id''] [[1]], IN [''id''] [[5]]] [''company_id'']],
          One ((employee 1 5)\<lparr>relation := VStruct ''Company'' []\<rparr>))"
  by code_simp

section \<open>A value of another type\<close>

text \<open>
  The error branch is reached by a slice or pointer value whose element type does not fit:
  the error is recorded and the field value is left as it was.
\<close>

lemma unsupported_sets_error:
  assumes "type_of ev = Some ty" and "ty = TSlice u \<or> ty = TPtr u" and "ty \<noteq> elemType" and "u \<noteq> elemType"
  shows "appendToFieldValues r elemType (e, fv) ev = Inr (Some (ErrUnsupportedDataType ty (RelName r)), fv)"
  using assms by (auto simp: appendToFieldValues_def value_Type_def AssignableTo_def bindP_def)

text \<open>
  C8. The comments of user 1, \<open>Append\<close> of a post: the type is not assignable, and
  \<^verbatim>\<open>ev.Type().Elem()\<close> panics on a struct type before the error branch is reached.
\<close>

theorem Append_wrong_struct_type_panics:
  "Append okLayer [entity ''Post'' 0] (handle commentsRel (One (user 1 (VSlice (TStruct ''Comment'') []))))
   = Inl (ElemOfInvalidType (TStruct ''Post''))"
  by code_simp

section \<open>Clear\<close>

lemma Clear_is_Replace_without_values: "Clear L a = Replace L [] a"
  by (simp add: Clear_def)

text \<open>
  In memory \<open>Clear\<close> is idempotent for a single owner: each call returns nil and leaves the
  zero value in the relationship field.
\<close>

lemma Clear_single_owner:
  assumes "Error a = None" and "owners a = One ow"
    and "Type (Rel a) = Many2Many \<Longrightarrow> JoinTableOf (Rel a) \<noteq> None"
  shows "\<exists>a'. Clear L a = Inr a' \<and> Error a' = None \<and> Rel a' = Rel a
              \<and> owners a' = One (ow\<lparr>relation := Zero (IndirectFieldType (Rel a))\<rparr>)"
proof -
  let ?b = "a\<lparr>owners := One (ow\<lparr>relation := Zero (IndirectFieldType (Rel a))\<rparr>)\<rparr>"
  have s: "snd (set_at a Self (New (IndirectFieldType (Rel a))))
           = One (ow\<lparr>relation := Zero (IndirectFieldType (Rel a))\<rparr>)"
    using assms(2) by (simp add: set_at_def Field_Set_def AssignableTo_def New_def type_of_Zero TPtr_neq)
  have sa: "saveAssociation L True [] a = Inr (Save L (zero_at ?b Self) ?b)"
    using assms(2) s by (simp add: saveAssociation_def bindP_def)
  have ents: "\<exists>es. entities_of (Zero (IndirectFieldType (Rel a))) = Inr es"
    by (cases "IndirectFieldType (Rel a)") simp_all
  show ?thesis
  proof (cases "Type (Rel a)")
    case Many2Many
    with assms(3) obtain jt where jt: "JoinTableOf (Rel a) = Some jt" by auto
    from ents obtain es where es: "entities_of (Zero (IndirectFieldType (Rel a))) = Inr es" by blast
    show ?thesis using assms(1) sa Many2Many jt es
      by (simp add: Clear_def Replace_def bindP_def Save_def replaceMany2Many_def generateConds_def Let_def)
  qed (use assms(1) sa in \<open>simp_all add: Clear_def Replace_def bindP_def Save_def replaceHas_def Let_def\<close>)
qed

lemma Clear_twice_single_owner:
  assumes "Error a = None" and "owners a = One ow"
    and "Type (Rel a) = Many2Many \<Longrightarrow> JoinTableOf (Rel a) \<noteq> None"
  shows "\<exists>a1 a2. Clear L a = Inr a1 \<and> Clear L a1 = Inr a2 \<and> Error a1 = None \<and> Error a2 = None
                 \<and> owners a1 = One (ow\<lparr>relation := Zero (IndirectFieldType (Rel a))\<rparr>)
                 \<and> owners a2 = owners a1"
proof -
  from Clear_single_owner [OF assms] obtain a1 where a1: "Clear L a = Inr a1" "Error a1 = None"
    "Rel a1 = Rel a" "owners a1 = One (ow\<lparr>relation := Zero (IndirectFieldType (Rel a))\<rparr>)"
    by blast
  from assms(3) a1(3) have jt: "Type (Rel a1) = Many2Many \<Longrightarrow> JoinTableOf (Rel a1) \<noteq> None" by simp
  from Clear_single_owner [OF a1(2) a1(4) jt] obtain a2 where a2: "Clear L a1 = Inr a2" "Error a2 = None"
    "owners a2 = One ((ow\<lparr>relation := Zero (IndirectFieldType (Rel a))\<rparr>)\<lparr>relation := Zero (IndirectFieldType (Rel a1))\<rparr>)"
    by blast
  from a2(3) a1(3,4) have "owners a2 = owners a1" by simp
  with a1 a2 show ?thesis by blast
qed

text \<open>
  C9. \<open>Clear\<close> is \<open>Replace\<close> with no values (\<open>Clear_is_Replace_without_values\<close>). For the
  posts of user 1 it empties the field and returns nil, and the update it issues names no
  column: the row of post 10 keeps its \<open>user_id\<close>.
\<close>

theorem Clear_has_many_nulls_no_row:
  "outcome (Clear okLayer (handle postsRel (One (user 1 (VSlice (TStruct ''Post'') [entity ''Post'' 10])))))
   = Inr (None,
          [PSave (Some [''Posts'']) (One (user 1 (VSlice (TStruct ''Post'') []))),
           PUpdateColumns (Some ''Post'') [IN [] [[1]]] []],
          One (user 1 (VSlice (TStruct ''Post'') [])))
   \<and> updated_by (PUpdateColumns (Some ''Post'') [IN [] [[1]]] []) postRow ''user_id'' = CInt 1"
  by code_simp

section \<open>The join rows a Many2Many Replace deletes\<close>

text \<open>
  Once \<^verbatim>\<open>association.Error\<close> is set it stays set while values are appended, and an
  append that leaves it nil has extended the field value by the value at hand.
\<close>

lemma append_error_kept:
  "appendToFieldValues r t st ev = Inr st' \<Longrightarrow> fst st' = None \<Longrightarrow> fst st = None"
  by (auto simp: appendToFieldValues_def split: if_splits dest!: bindP_Inr)

lemma append_on_slice:
  assumes "appendToFieldValues r t (e, VSlice t acc) ev = Inr (e', fv)" and "e' = None"
  shows "fv = VSlice t (acc @ [unwrap t ev])"
  using assms
  by (auto simp: appendToFieldValues_def value_Type_def unwrap_def AssignableTo_def
           split: if_splits option.splits goval.splits dest!: bindP_Inr)

lemma append_on_pointer:
  "appendToFieldValues r t (e, VPtr p) ev = Inr st' \<Longrightarrow> fst st' \<noteq> None"
  by (auto simp: appendToFieldValues_def split: if_splits dest!: bindP_Inr)

lemma appendEach_error_kept:
  "appendEach r t st xs = Inr st' \<Longrightarrow> fst st' = None \<Longrightarrow> fst st = None"
proof (induction xs arbitrary: st)
  case Nil
  then show ?case by simp
next
  case (Cons x xs)
  from Cons.prems(1) obtain st1 where s1: "appendToFieldValues r t st (Indirect x) = Inr st1"
    and s2: "appendEach r t st1 xs = Inr st'" by (auto dest!: bindP_Inr)
  from Cons.IH [OF s2 Cons.prems(2)] have "fst st1 = None" .
  with append_error_kept [OF s1] show ?case by simp
qed

lemma appendEach_on_slice:
  assumes "appendEach r t (e, VSlice t acc) xs = Inr (e', fv)" and "e' = None"
  shows "fv = VSlice t (acc @ map (unwrap t) (map Indirect xs))"
  using assms
proof (induction xs arbitrary: e acc)
  case Nil
  then show ?case by simp
next
  case (Cons x xs)
  from Cons.prems(1) obtain e1 fv1 where s1: "appendToFieldValues r t (e, VSlice t acc) (Indirect x) = Inr (e1, fv1)"
    and s2: "appendEach r t (e1, fv1) xs = Inr (e', fv)" by (auto dest!: bindP_Inr)
  from appendEach_error_kept [OF s2] Cons.prems(2) have e1: "e1 = None" by simp
  from append_on_slice [OF s1 e1] have fv1: "fv1 = VSlice t (acc @ [unwrap t (Indirect x)])" .
  from Cons.IH [OF s2 [unfolded fv1] Cons.prems(2)] show ?case by simp
qed

lemma appendEach_on_pointer:
  assumes "appendEach r t (e, VPtr p) xs = Inr (e', fv)" and "e' = None"
  shows "xs = [] \<and> fv = VPtr p"
proof (cases xs)
  case Nil
  with assms show ?thesis by simp
next
  case (Cons x rest)
  with assms(1) obtain e1 fv1 where s1: "appendToFieldValues r t (e, VPtr p) (Indirect x) = Inr (e1, fv1)"
    and s2: "appendEach r t (e1, fv1) rest = Inr (e', fv)" by (auto dest!: bindP_Inr)
  from appendEach_error_kept [OF s2] assms(2) have "e1 = None" by simp
  with append_on_pointer [OF s1] show ?thesis by simp
qed


lemma collection_unfold:
  assumes "Type (Rel a) = HasMany \<or> Type (Rel a) = Many2Many" and "owners a = One ow"
    and "IndirectFieldType (Rel a) = TSlice t"
    and "fv = (if clear then New (TSlice t) else Indirect (relation ow))"
  shows "appendToRelations a Self rv clear =
           bindP (case rv of
                    VSlice u xs \<Rightarrow> appendEach (Rel a) t (Error a, fv) xs
                  | VStruct n fs \<Rightarrow> appendToFieldValues (Rel a) t (Error a, fv) rv
                  | _ \<Rightarrow> Inr (Error a, fv))
             (\<lambda>st. if fst st = None then Inr (assign_set a Self (snd st)) else Inr (a\<lparr>Error := fst st\<rparr>))"
proof -
  from assms(1) have ns: "\<not> (Type (Rel a) = HasOne \<or> Type (Rel a) = BelongsTo)" by auto
  show ?thesis
    unfolding appendToRelations_def Let_def assms(3) assms(4)
    by (simp add: ns assms(2) bindP_def)
qed

lemma collection_step:
  assumes "Type (Rel a) = HasMany \<or> Type (Rel a) = Many2Many" and "owners a = One ow"
    and "IndirectFieldType (Rel a) = TSlice t"
    and "fv = (if clear then New (TSlice t) else Indirect (relation ow))"
    and "appendToRelations a Self rv clear = Inr a'" and "Error a' = None"
  shows "\<exists>st. (case rv of
                 VSlice u xs \<Rightarrow> appendEach (Rel a) t (Error a, fv) xs
               | VStruct n fs \<Rightarrow> appendToFieldValues (Rel a) t (Error a, fv) rv
               | _ \<Rightarrow> Inr (Error a, fv)) = Inr (None, st)
              \<and> a' = assign_set a Self st"
proof -
  let ?inner = "(case rv of
                 VSlice u xs \<Rightarrow> appendEach (Rel a) t (Error a, fv) xs
               | VStruct n fs \<Rightarrow> appendToFieldValues (Rel a) t (Error a, fv) rv
               | _ \<Rightarrow> Inr (Error a, fv))"
  from assms(5) have b: "bindP ?inner
      (\<lambda>st. if fst st = None then Inr (assign_set a Self (snd st)) else Inr (a\<lparr>Error := fst st\<rparr>)) = Inr a'"
    unfolding collection_unfold [OF assms(1-4)] .
  from bindP_Inr [OF this] obtain p where i: "?inner = Inr p"
    and r: "(if fst p = None then Inr (assign_set a Self (snd p)) else Inr (a\<lparr>Error := fst p\<rparr>))
            = (Inr a' :: panic + Association)"
    by (elim exE conjE)
  from r assms(6) have n: "fst p = None" by (auto split: if_splits)
  with r have a': "a' = assign_set a Self (snd p)" by simp
  from n have "p = (None, snd p)" by (cases p) simp
  with i a' show ?thesis by metis
qed

lemma inner_error_kept:
  assumes "(case rv of
              VSlice u xs \<Rightarrow> appendEach r t (e, fv) xs
            | VStruct n fs \<Rightarrow> appendToFieldValues r t (e, fv) rv
            | _ \<Rightarrow> Inr (e, fv)) = Inr (None, st)"
  shows "e = None"
  using assms appendEach_error_kept [of r t "(e, fv)" _ "(None, st)"]
        append_error_kept [of r t "(e, fv)" rv "(None, st)"]
  by (cases rv) auto

lemma inner_on_slice:
  assumes "(case rv of
              VSlice u xs \<Rightarrow> appendEach r t (e, VSlice t acc) xs
            | VStruct n fs \<Rightarrow> appendToFieldValues r t (e, VSlice t acc) rv
            | _ \<Rightarrow> Inr (e, VSlice t acc)) = Inr (None, st)"
  shows "st = VSlice t (acc @ map (unwrap t) (elements rv))"
  using assms appendEach_on_slice [of r t e acc _ None st]
        append_on_slice [of r t e acc rv None st]
  by (cases rv) auto

lemma inner_on_pointer:
  assumes "(case rv of
              VSlice u xs \<Rightarrow> appendEach r t (e, VPtr p) xs
            | VStruct n fs \<Rightarrow> appendToFieldValues r t (e, VPtr p) rv
            | _ \<Rightarrow> Inr (e, VPtr p)) = Inr (None, st)"
  shows "st = VPtr p \<and> elements rv = []"
  using assms appendEach_on_pointer [of r t e p _ None st]
        append_on_pointer [of r t e p rv "(None, st)"]
  by (cases rv) auto

lemma assign_slice:
  assumes "owners a = One ow" and "IndirectFieldType (Rel a) = TSlice t"
  shows "assign_set a Self (VSlice t xs) = a\<lparr>owners := One (ow\<lparr>relation := VSlice t xs\<rparr>), Error := None\<rparr>"
    and "assign_set a Self (New (TSlice t)) = a\<lparr>owners := One (ow\<lparr>relation := VSlice t []\<rparr>), Error := None\<rparr>"
  using assms by (simp_all add: assign_set_def set_at_def Field_Set_def AssignableTo_def New_def)

lemma collection_clear_step:
  assumes "Type (Rel a) = HasMany \<or> Type (Rel a) = Many2Many" and "owners a = One ow"
    and "IndirectFieldType (Rel a) = TSlice t"
    and "appendToRelations a Self rv True = Inr a'" and "Error a' = None"
  shows "elements rv = [] \<and> a' = a\<lparr>owners := One (ow\<lparr>relation := VSlice t []\<rparr>), Error := None\<rparr>"
proof -
  have fv: "New (TSlice t) = (if True then New (TSlice t) else Indirect (relation ow))" by simp
  from collection_step [OF assms(1-3) fv assms(4,5)] obtain st where
    i: "(case rv of
           VSlice u xs \<Rightarrow> appendEach (Rel a) t (Error a, New (TSlice t)) xs
         | VStruct n fs \<Rightarrow> appendToFieldValues (Rel a) t (Error a, New (TSlice t)) rv
         | _ \<Rightarrow> Inr (Error a, New (TSlice t))) = Inr (None, st)"
    and a': "a' = assign_set a Self st" by blast
  from inner_on_pointer [OF i [unfolded New_def Zero.simps]] have "st = New (TSlice t)" "elements rv = []"
    by (simp_all add: New_def)
  with a' assign_slice(2) [OF assms(2,3)] show ?thesis by simp
qed

lemma collection_append_step:
  assumes "Type (Rel a) = HasMany \<or> Type (Rel a) = Many2Many" and "owners a = One ow"
    and "IndirectFieldType (Rel a) = TSlice t" and "relation ow = VSlice t acc"
    and "appendToRelations a Self rv False = Inr a'" and "Error a' = None"
  shows "a' = a\<lparr>owners := One (ow\<lparr>relation := VSlice t (acc @ map (unwrap t) (elements rv))\<rparr>), Error := None\<rparr>"
proof -
  have fv: "VSlice t acc = (if False then New (TSlice t) else Indirect (relation ow))"
    using assms(4) by simp
  from collection_step [OF assms(1-3) fv assms(5,6)] obtain st where
    i: "(case rv of
           VSlice u xs \<Rightarrow> appendEach (Rel a) t (Error a, VSlice t acc) xs
         | VStruct n fs \<Rightarrow> appendToFieldValues (Rel a) t (Error a, VSlice t acc) rv
         | _ \<Rightarrow> Inr (Error a, VSlice t acc)) = Inr (None, st)"
    and a': "a' = assign_set a Self st" by blast
  from inner_on_slice [OF i] a' assign_slice(1) [OF assms(2,3)] show ?thesis by simp
qed

lemma append_error_kept':
  "appendToFieldValues r t (e, fv) ev = Inr (None, fv') \<Longrightarrow> e = None"
  using append_error_kept [of r t "(e, fv)" ev "(None, fv')"] by simp

lemma appendEach_error_kept':
  "appendEach r t (e, fv) xs = Inr (None, fv') \<Longrightarrow> e = None"
  using appendEach_error_kept [of r t "(e, fv)" xs "(None, fv')"] by simp

lemma collection_error_kept:
  assumes "Type (Rel a) = HasMany \<or> Type (Rel a) = Many2Many"
    and "appendToRelations a src rv clear = Inr a'" and "Error a' = None"
  shows "Error a = None"
proof -
  from assms(1) have ns: "\<not> (Type (Rel a) = HasOne \<or> Type (Rel a) = BelongsTo)" by auto
  from assms(2,3) ns show ?thesis
    unfolding appendToRelations_def Let_def
    by (auto split: if_splits goval.splits
             dest!: bindP_Inr dest: appendEach_error_kept' append_error_kept')
qed

lemma saveOne_error_kept:
  assumes "Type (Rel a) = HasMany \<or> Type (Rel a) = Many2Many"
    and "saveOne clear idx vs a = Inr a'" and "Error a' = None"
  shows "Error a = None"
  using assms
proof (induction vs arbitrary: a idx)
  case Nil
  then show ?case by simp
next
  case (Cons v vs)
  from Cons.prems(2) obtain a1 where s1: "appendToRelations a Self (Indirect v) (clear \<and> idx = 0) = Inr a1"
    and s2: "saveOne clear (Suc idx) vs a1 = Inr a'"
    by (auto dest!: bindP_Inr)
  have rel: "Rel a1 = Rel a" by (rule Rel_appendToRelations [OF s1])
  from Cons.IH [OF _ s2 Cons.prems(3)] rel Cons.prems(1) have "Error a1 = None" by simp
  from collection_error_kept [OF Cons.prems(1) s1 this] show ?case .
qed

lemma saveOne_appends:
  assumes "Type (Rel a) = HasMany \<or> Type (Rel a) = Many2Many" and "owners a = One ow"
    and "relation ow = VSlice t acc" and "IndirectFieldType (Rel a) = TSlice t" and "idx \<noteq> 0"
    and "saveOne clear idx vs a = Inr a'" and "Error a' = None"
  shows "a' = a\<lparr>owners := One (ow\<lparr>relation := VSlice t (acc @ new_values t vs)\<rparr>), Error := None\<rparr>"
  using assms
proof (induction vs arbitrary: a ow acc idx)
  case Nil
  then show ?case by (simp add: new_values_def)
next
  case (Cons v vs)
  from Cons.prems(5,6) obtain a1 where s1: "appendToRelations a Self (Indirect v) False = Inr a1"
    and s2: "saveOne clear (Suc idx) vs a1 = Inr a'"
    by (auto dest!: bindP_Inr)
  have rel: "Rel a1 = Rel a" by (rule Rel_appendToRelations [OF s1])
  with Cons.prems(1) have ty1: "Type (Rel a1) = HasMany \<or> Type (Rel a1) = Many2Many" by simp
  have e1: "Error a1 = None" by (rule saveOne_error_kept [OF ty1 s2 Cons.prems(7)])
  let ?acc1 = "acc @ map (unwrap t) (elements (Indirect v))"
  let ?ow1 = "ow\<lparr>relation := VSlice t ?acc1\<rparr>"
  have a1: "a1 = a\<lparr>owners := One ?ow1, Error := None\<rparr>"
    by (rule collection_append_step [OF Cons.prems(1,2,4,3) s1 e1])
  have "a' = a1\<lparr>owners := One (?ow1\<lparr>relation := VSlice t (?acc1 @ new_values t vs)\<rparr>), Error := None\<rparr>"
    by (rule Cons.IH [OF ty1 _ _ _ _ s2 Cons.prems(7)]) (simp_all add: a1 Cons.prems(4))
  then show ?case by (simp add: a1 new_values_def)
qed

lemma set_at_New:
  assumes "owners a = One ow" and "IndirectFieldType (Rel a) = TSlice t"
  shows "snd (set_at a Self (New (TSlice t))) = One (ow\<lparr>relation := VSlice t []\<rparr>)"
  using assms by (simp add: set_at_def Field_Set_def AssignableTo_def New_def)

lemma saveAssociation_collection:
  assumes "Type (Rel a) = HasMany \<or> Type (Rel a) = Many2Many" and "owners a = One ow"
    and "IndirectFieldType (Rel a) = TSlice t"
    and "saveAssociation L True vals a = Inr a'" and "Error a' = None"
  shows "owners a' = One (ow\<lparr>relation := VSlice t (new_values t vals)\<rparr>)"
proof (cases vals)
  case Nil
  with assms(2-4) set_at_New [OF assms(2,3)] show ?thesis
    by (auto simp: saveAssociation_def bindP_def Save_def new_values_def)
next
  case (Cons v vs)
  with assms(2,4) obtain b where so: "saveOne True 0 (v # vs) a = Inr b"
    and a': "a' = Save L (zero_at b Self) b"
    by (auto simp: saveAssociation_def simp del: saveOne.simps dest!: bindP_Inr)
  from a' assms(5) have eb: "Error b = None" by (simp add: Save_def)
  from so obtain a1 where s1: "appendToRelations a Self (Indirect v) True = Inr a1"
    and s2: "saveOne True (Suc 0) vs a1 = Inr b"
    by (auto dest!: bindP_Inr)
  have rel: "Rel a1 = Rel a" by (rule Rel_appendToRelations [OF s1])
  with assms(1) have ty1: "Type (Rel a1) = HasMany \<or> Type (Rel a1) = Many2Many" by simp
  have e1: "Error a1 = None" by (rule saveOne_error_kept [OF ty1 s2 eb])
  from collection_clear_step [OF assms(1-3) s1 e1]
  have el: "elements (Indirect v) = []"
    and a1: "a1 = a\<lparr>owners := One (ow\<lparr>relation := VSlice t []\<rparr>), Error := None\<rparr>" by simp_all
  have "b = a1\<lparr>owners := One ((ow\<lparr>relation := VSlice t []\<rparr>)\<lparr>relation := VSlice t ([] @ new_values t vs)\<rparr>), Error := None\<rparr>"
    by (rule saveOne_appends [OF ty1 _ _ _ _ s2 eb]) (simp_all add: a1 assms(3))
  with a' Cons el show ?thesis by (simp add: Save_def a1 new_values_def)
qed


lemma sat_generateConds:
  assumes "generateConds r ow = Inr c"
  shows "sat rw c \<longleftrightarrow>
           row_owner_key r rw = owner_key r ow \<and> row_related_key r rw \<notin> set (related_keys r ow)"
proof -
  from assms obtain es where es: "entities_of (relation ow) = Inr es"
    and c: "c = And (ToQueryValues (map (\<lambda>ref. DBName (ForeignKey ref)) (own_refs r))
                       (identity_values (map (\<lambda>ref. Name (PrimaryKey ref)) (own_refs r)) [columns ow]))
                    (Not (ToQueryValues (map (\<lambda>ref. DBName (ForeignKey ref)) (rel_refs r))
                       (identity_values (map (\<lambda>ref. Name (PrimaryKey ref)) (rel_refs r)) es)))"
    unfolding generateConds_def Let_def by (auto dest!: bindP_Inr)
  show ?thesis
    unfolding c
    by (auto simp: ToQueryValues_def identity_values_def row_owner_key_def owner_key_def
                   row_related_key_def related_keys_def es)
qed

lemma set_at_Index_New:
  assumes "owners a = Many os" and "i < length os"
  shows "snd (set_at a (Index i) (New (IndirectFieldType (Rel a))))
         = Many (os[i := (os ! i)\<lparr>relation := Zero (IndirectFieldType (Rel a))\<rparr>])"
  using assms
  by (simp add: set_at_def Field_Set_def AssignableTo_def New_def type_of_Zero TPtr_neq)

lemma clearEach_owners:
  assumes "owners a = Many os" and "\<forall>i \<in> set is. i < length os"
  shows "\<exists>os'. owners (clearEach a is) = Many os' \<and> length os' = length os
           \<and> (\<forall>j < length os. os' ! j = (if j \<in> set is
                  then (os ! j)\<lparr>relation := Zero (IndirectFieldType (Rel a))\<rparr> else os ! j))"
  using assms
proof (induction "is" arbitrary: a os)
  case Nil
  then show ?case by simp
next
  case (Cons i "is")
  let ?z = "Zero (IndirectFieldType (Rel a))"
  let ?os1 = "os[i := (os ! i)\<lparr>relation := ?z\<rparr>]"
  let ?a1 = "a\<lparr>owners := snd (set_at a (Index i) (New (IndirectFieldType (Rel a))))\<rparr>"
  from Cons.prems have i: "i < length os" by simp
  have o1: "owners ?a1 = Many ?os1" using set_at_Index_New [OF Cons.prems(1) i] by simp
  from Cons.prems(2) have b: "\<forall>i \<in> set is. i < length ?os1" by simp
  from Cons.IH [OF o1 b] obtain os' where r: "owners (clearEach ?a1 is) = Many os'"
    and l: "length os' = length ?os1"
    and n: "\<forall>j < length ?os1. os' ! j = (if j \<in> set is
                  then (?os1 ! j)\<lparr>relation := Zero (IndirectFieldType (Rel ?a1))\<rparr> else ?os1 ! j)"
    by blast
  have "\<forall>j < length os. os' ! j = (if j \<in> set (i # is) then (os ! j)\<lparr>relation := ?z\<rparr> else os ! j)"
  proof (intro allI impI)
    fix j assume j: "j < length os"
    with n have "os' ! j = (if j \<in> set is then (?os1 ! j)\<lparr>relation := ?z\<rparr> else ?os1 ! j)" by simp
    with j i show "os' ! j = (if j \<in> set (i # is) then (os ! j)\<lparr>relation := ?z\<rparr> else os ! j)"
      by (cases "j = i") auto
  qed
  with r l show ?case by simp
qed

lemma clearEach_all:
  assumes "owners a = Many os"
  shows "owners (clearEach a [0..<length os])
         = Many (map (\<lambda>ow. ow\<lparr>relation := Zero (IndirectFieldType (Rel a))\<rparr>) os)"
proof -
  from clearEach_owners [OF assms, of "[0..<length os]"] obtain os' where
    r: "owners (clearEach a [0..<length os]) = Many os'" and l: "length os' = length os"
    and n: "\<forall>j < length os. os' ! j = (os ! j)\<lparr>relation := Zero (IndirectFieldType (Rel a))\<rparr>"
    by auto
  have "os' = map (\<lambda>ow. ow\<lparr>relation := Zero (IndirectFieldType (Rel a))\<rparr>) os"
    by (rule nth_equalityI) (use l n in auto)
  with r show ?thesis by simp
qed

lemma saveAssociation_many:
  assumes "Type (Rel a) = HasMany \<or> Type (Rel a) = Many2Many" and "owners a = Many os"
    and "IndirectFieldType (Rel a) = TSlice t"
    and "saveAssociation L True vals a = Inr a'" and "Error a' = None"
  shows "vals = [] \<and> owners a' = Many (map (\<lambda>ow. ow\<lparr>relation := VSlice t []\<rparr>) os)"
proof (cases "vals = []")
  case True
  show ?thesis
  proof (cases "os = []")
    case True
    with \<open>vals = []\<close> assms(2,4) show ?thesis
      by (auto simp: saveAssociation_def bindP_def Save_def)
  next
    case False
    with \<open>vals = []\<close> assms(2,4) have "a' = Save L False (clearEach a [0..<length os])"
      by (simp add: saveAssociation_def)
    with clearEach_all [OF assms(2)] assms(3) \<open>vals = []\<close> show ?thesis by (simp add: Save_def)
  qed
next
  case nv: False
  show ?thesis
  proof (cases "os = []")
    case True
    with nv assms(2,4) have "Error a' = Some ErrLengthMismatch"
      by (auto simp: saveAssociation_def bindP_def Save_def)
    with assms(5) show ?thesis by simp
  next
    case ne: False
    from assms(1) have ns: "\<not> (Type (Rel a) = HasOne \<or> Type (Rel a) = BelongsTo)" by auto
    have up: "[0..<length os] = 0 # [Suc 0..<length os]" using ne by (simp add: upt_conv_Cons)
    have p: "appendToRelations b (Index 0) rv True = Inl FieldOfNonStruct"
      if "Rel b = Rel a" and "owners b = Many os" for b rv
      using that ns assms(3) by (simp add: appendToRelations_def bindP_def)
    from nv have v: "0 < length vals" by simp
    have sm: "saveMany True vals [0..<length os] (b, False) = Inl FieldOfNonStruct"
      if "Rel b = Rel a" and "owners b = Many os" for b
      by (subst up) (simp add: bindP_def p [OF that] nv)
    from assms(2) nv ne have "saveAssociation L True vals a = Inl FieldOfNonStruct"
      by (simp add: saveAssociation_def bindP_def sm)
    with assms(4) show ?thesis by simp
  qed
qed


lemma generateEach_all2:
  "generateEach r os = Inr cs \<Longrightarrow> list_all2 (\<lambda>ow c. generateConds r ow = Inr c) os cs"
proof (induction os arbitrary: cs)
  case Nil
  then show ?case by simp
next
  case (Cons ow os)
  from Cons.prems obtain c rest where "generateConds r ow = Inr c" "generateEach r os = Inr rest"
    "cs = c # rest" by (auto dest!: bindP_Inr)
  with Cons.IH show ?case by simp
qed

lemma list_ex_generated:
  assumes "list_all2 (\<lambda>ow c. generateConds r ow = Inr c) os cs"
  shows "list_ex (sat rw) cs \<longleftrightarrow>
           (\<exists>i < length os. row_owner_key r rw = owner_key r (os ! i)
                              \<and> row_related_key r rw \<notin> set (related_keys r (os ! i)))"
proof -
  from assms have l: "length os = length cs" by (rule list_all2_lengthD)
  from assms have n: "generateConds r (os ! i) = Inr (cs ! i)" if "i < length os" for i
    using that by (simp add: list_all2_conv_all_nth)
  have "list_ex (sat rw) cs \<longleftrightarrow> (\<exists>i < length cs. sat rw (cs ! i))"
    unfolding list_ex_iff by (metis in_set_conv_nth)
  also have "\<dots> \<longleftrightarrow> (\<exists>i < length os. row_owner_key r rw = owner_key r (os ! i)
                              \<and> row_related_key r rw \<notin> set (related_keys r (os ! i)))"
    using l sat_generateConds [OF n] by auto
  finally show ?thesis .
qed

text \<open>
  When a Many2Many \<open>Replace\<close> returns with the handle's error nil, the rows its delete
  removes are exactly the join rows that satisfy the literal conditions, carry the key of
  a bound owner, and carry a related-side key that is not a key of that owner's new
  values. With a slice of owners this is the case only for \<open>Replace\<close> with no values.
\<close>

lemma Replace_many2many_deleted_rows:
  assumes "Replace L vals a = Inr a'" and "Error a = None" and "Error a' = None"
    and "Type (Rel a) = Many2Many" and "IndirectFieldType (Rel a) = TSlice t"
  shows "deleted_by (Rel a) (last (calls (DB a'))) rw \<longleftrightarrow>
           list_all (sat rw) (literal_conds (Rel a))
           \<and> (\<exists>i < length (owner_list (owners a)).
                 row_owner_key (Rel a) rw = owner_key (Rel a) (owner_list (owners a) ! i)
                 \<and> row_related_key (Rel a) rw
                     \<notin> set (value_keys (Rel a) (new_values_at t (owners a) vals i)))"
proof -
  from assms(1,2) obtain a1 where sa: "saveAssociation L True vals a = Inr a1"
    and ph: "(case Type (Rel a1) of HasOne \<Rightarrow> Inr (replaceHas L a1) | HasMany \<Rightarrow> Inr (replaceHas L a1)
              | Many2Many \<Rightarrow> replaceMany2Many L a1 | BelongsTo \<Rightarrow> Inr a1) = Inr a'"
    by (auto simp: Replace_def dest!: bindP_Inr)
  have rel: "Rel a1 = Rel a" by (rule Rel_saveAssociation [OF sa])
  with ph assms(4) have rm: "replaceMany2Many L a1 = Inr a'" by simp
  then have "\<exists>jt cs. JoinTableOf (Rel a) = Some jt
      \<and> generateEach (Rel a) (owner_list (owners a1)) = Inr cs
      \<and> a' = a1\<lparr>DB := run L (PDelete (JoinModelType jt) (literal_conds (Rel a) @ cs)) (DB a1)\<rparr>"
    unfolding replaceMany2Many_def rel by (fastforce split: option.splits dest!: bindP_Inr)
  then obtain jt :: JoinTable and cs where ge: "generateEach (Rel a) (owner_list (owners a1)) = Inr cs"
    and a': "a' = a1\<lparr>DB := run L (PDelete (JoinModelType jt) (literal_conds (Rel a) @ cs)) (DB a1)\<rparr>"
    by blast
  from a' assms(3) have e1: "Error a1 = None" by simp
  from a' have l: "last (calls (DB a')) = PDelete (JoinModelType jt) (literal_conds (Rel a) @ cs)"
    by (simp add: run_def)
  have d: "deleted_by (Rel a) (last (calls (DB a'))) rw \<longleftrightarrow>
             list_all (sat rw) (literal_conds (Rel a))
             \<and> (\<exists>i < length (owner_list (owners a1)).
                   row_owner_key (Rel a) rw = owner_key (Rel a) (owner_list (owners a1) ! i)
                   \<and> row_related_key (Rel a) rw \<notin> set (related_keys (Rel a) (owner_list (owners a1) ! i)))"
    unfolding l using list_ex_generated [OF generateEach_all2 [OF ge], of rw] by simp
  show ?thesis
  proof (cases "owners a")
    case (One ow)
    have o1: "owners a1 = One (ow\<lparr>relation := VSlice t (new_values t vals)\<rparr>)"
      by (rule saveAssociation_collection [OF disjI2 [OF assms(4)] One assms(5) sa e1])
    show ?thesis unfolding d o1 One
      by (simp add: owner_key_def related_keys_def value_keys_def)
  next
    case (Many os)
    from saveAssociation_many [OF disjI2 [OF assms(4)] Many assms(5) sa e1]
    have v: "vals = []" and o1: "owners a1 = Many (map (\<lambda>ow. ow\<lparr>relation := VSlice t []\<rparr>) os)"
      by simp_all
    show ?thesis unfolding d o1 Many v
      by (auto simp: owner_key_def related_keys_def value_keys_def new_values_def)
  qed
qed

text \<open>
  User 1 holds tag 5, and \<open>Replace\<close> is given an empty slice of tags and tag 7: the join
  row of tag 5 is deleted, the one of tag 7 and the rows of user 2 are kept. \<open>Clear\<close> on
  users 1 and 2 deletes the rows of both and no row of user 3.
\<close>

lemma Replace_after_empty_slice_example:
  "outcome (Replace okLayer [VSlice (TStruct ''Tag'') [], entity ''Tag'' 7] tagsHandle)
   = Inr (None,
          [PSave (Some [''Tags'', ''TagID'']) (One (user 1 (VSlice (TStruct ''Tag'') [entity ''Tag'' 7]))),
           PDelete ''user_tags'' [And (IN [''user_id''] [[1]]) (Not (IN [''tag_id''] [[7]]))]],
          One (user 1 (VSlice (TStruct ''Tag'') [entity ''Tag'' 7])))"
  "deleted_by tagsRel (PDelete ''user_tags'' [And (IN [''user_id''] [[1]]) (Not (IN [''tag_id''] [[7]]))]) (joinRow 1 5)"
  "\<not> deleted_by tagsRel (PDelete ''user_tags'' [And (IN [''user_id''] [[1]]) (Not (IN [''tag_id''] [[7]]))]) (joinRow 1 7)"
  "\<not> deleted_by tagsRel (PDelete ''user_tags'' [And (IN [''user_id''] [[1]]) (Not (IN [''tag_id''] [[7]]))]) (joinRow 2 5)"
  by code_simp+

lemma Clear_two_owners_example:
  "outcome (Clear okLayer (handle tagsRel (Many [user 1 (VSlice (TStruct ''Tag'') [entity ''Tag'' 5]),
                                                user 2 (VSlice (TStruct ''Tag'') [entity ''Tag'' 6])])))
   = Inr (None,
          [PSave (Some [''Tags'', ''TagID''])
             (Many [user 1 (VSlice (TStruct ''Tag'') []), user 2 (VSlice (TStruct ''Tag'') [])]),
           PDelete ''user_tags'' [And (IN [''user_id''] [[1]]) (Not (IN [''tag_id''] [])),
                                  And (IN [''user_id''] [[2]]) (Not (IN [''tag_id''] []))]],
          Many [user 1 (VSlice (TStruct ''Tag'') []), user 2 (VSlice (TStruct ''Tag'') [])])"
  "deleted_by tagsRel (PDelete ''user_tags'' [And (IN [''user_id''] [[1]]) (Not (IN [''tag_id''] [])),
                                  And (IN [''user_id''] [[2]]) (Not (IN [''tag_id''] []))]) (joinRow 2 6)"
  "\<not> deleted_by tagsRel (PDelete ''user_tags'' [And (IN [''user_id''] [[1]]) (Not (IN [''tag_id''] [])),
                                  And (IN [''user_id''] [[2]]) (Not (IN [''tag_id''] []))]) (joinRow 3 6)"
  by code_simp+

text \<open>
  C4. User 1 holds tag 5 in memory; \<open>Replace\<close> is given a slice of slices of comments and
  tag 7. The first value makes \<open>saveAssociation\<close> record the unsupported data type, so the
  field is never set and still holds tag 5 when the delete is built from it: the delete
  that is issued all the same removes the join row of user 1 and tag 7, one of the new
  values.
\<close>

theorem Replace_many2many_deletes_row_of_new_value:
  "outcome (Replace okLayer [comments, entity ''Tag'' 7] tagsHandle)
   = Inr (Some (ErrUnsupportedDataType (TSlice (TStruct ''Comment'')) ''Tags''),
          [PSave (Some [''Tags'', ''TagID'']) (One (user 1 (VSlice (TStruct ''Tag'') [entity ''Tag'' 5]))),
           PDelete ''user_tags'' [And (IN [''user_id''] [[1]]) (Not (IN [''tag_id''] [[5]]))]],
          One (user 1 (VSlice (TStruct ''Tag'') [entity ''Tag'' 5])))
   \<and> deleted_by tagsRel
         (PDelete ''user_tags'' [And (IN [''user_id''] [[1]]) (Not (IN [''tag_id''] [[5]]))])
         (joinRow 1 7)"
  by code_simp

section \<open>Append on a singular relationship\<close>

lemma singular_step:
  assumes "Type (Rel a) = HasOne \<or> Type (Rel a) = BelongsTo" and "owners a = One ow"
  shows "\<exists>r e. appendToRelations a Self rv clear
               = Inr (a\<lparr>owners := One (ow\<lparr>relation := r\<rparr>), Error := e\<rparr>)"
proof -
  have frame: "a = a\<lparr>owners := One (ow\<lparr>relation := relation ow\<rparr>), Error := Error a\<rparr>"
    using assms(2) by simp
  have set: "\<exists>r e. assign_set a Self v = a\<lparr>owners := One (ow\<lparr>relation := r\<rparr>), Error := e\<rparr>" for v
  proof (cases "Field_Set (Rel a) ow v")
    case (Inl err)
    with assms(2) have "assign_set a Self v = a\<lparr>owners := One (ow\<lparr>relation := relation ow\<rparr>), Error := Some err\<rparr>"
      by (simp add: assign_set_def set_at_def)
    then show ?thesis by blast
  next
    case (Inr ow')
    then obtain r where "ow' = ow\<lparr>relation := r\<rparr>"
      by (auto simp: Field_Set_def split: option.splits if_splits)
    with Inr assms(2) have "assign_set a Self v = a\<lparr>owners := One (ow\<lparr>relation := r\<rparr>), Error := None\<rparr>"
      by (simp add: assign_set_def set_at_def)
    then show ?thesis by blast
  qed
  have same: "\<exists>r e. (Inr a :: panic + Association) = Inr (a\<lparr>owners := One (ow\<lparr>relation := r\<rparr>), Error := e\<rparr>)"
    using frame by blast
  show ?thesis
  proof (cases rv)
    case (VStruct n fs)
    with assms(1) set [of rv] show ?thesis by (auto simp: appendToRelations_def)
  next
    case (VSlice t xs)
    show ?thesis
    proof (cases xs)
      case Nil
      with VSlice assms(1) same show ?thesis by (simp add: appendToRelations_def)
    next
      case (Cons x rest)
      with VSlice assms(1) set [of x] show ?thesis by (auto simp: appendToRelations_def)
    qed
  qed (use assms(1) same in \<open>simp_all add: appendToRelations_def\<close>)
qed

lemma singular_struct_step:
  assumes "Type (Rel a) = HasOne \<or> Type (Rel a) = BelongsTo" and "owners a = One ow"
    and "IndirectFieldType (Rel a) = TStruct n"
  shows "appendToRelations a Self (VStruct n fs) clear
         = Inr (a\<lparr>owners := One (ow\<lparr>relation := VStruct n fs\<rparr>), Error := None\<rparr>)"
  using assms
  by (auto simp: appendToRelations_def assign_set_def set_at_def Field_Set_def AssignableTo_def)

lemma saveOne_last_value:
  assumes "Type (Rel a) = HasOne \<or> Type (Rel a) = BelongsTo" and "owners a = One ow"
    and "vs \<noteq> []" and "Indirect (last vs) = VStruct n fs" and "IndirectFieldType (Rel a) = TStruct n"
  shows "saveOne clear idx vs a
         = Inr (a\<lparr>owners := One (ow\<lparr>relation := VStruct n fs\<rparr>), Error := None\<rparr>)"
  using assms
proof (induction vs arbitrary: a ow idx)
  case Nil
  then show ?case by simp
next
  case (Cons v vs)
  show ?case
  proof (cases "vs = []")
    case True
    with Cons.prems(4) have v: "Indirect v = VStruct n fs" by simp
    from singular_struct_step [OF Cons.prems(1,2,5), of fs "clear \<and> idx = 0"] True v
    show ?thesis by (simp add: bindP_def)
  next
    case False
    from singular_step [OF Cons.prems(1,2), of "Indirect v" "clear \<and> idx = 0"]
    obtain r e where step: "appendToRelations a Self (Indirect v) (clear \<and> idx = 0)
                            = Inr (a\<lparr>owners := One (ow\<lparr>relation := r\<rparr>), Error := e\<rparr>)"
      by blast
    let ?b = "a\<lparr>owners := One (ow\<lparr>relation := r\<rparr>), Error := e\<rparr>"
    from False Cons.prems(4) have l: "Indirect (last vs) = VStruct n fs" by simp
    have "saveOne clear (Suc idx) vs ?b
          = Inr (?b\<lparr>owners := One ((ow\<lparr>relation := r\<rparr>)\<lparr>relation := VStruct n fs\<rparr>), Error := None\<rparr>)"
      by (rule Cons.IH [OF _ _ False l]) (use Cons.prems in simp_all)
    with step show ?thesis by (simp add: bindP_def)
  qed
qed

text \<open>
  C6, as the code has it. For a HasOne or BelongsTo relationship bound to a single owner,
  \<open>Append\<close> with at least one value, the last of which is a struct or a non-nil pointer to
  a struct of the relationship's type, is \<open>Replace\<close> of the last value: the field ends
  holding the last supplied value, and the values before it leave no trace in the result.
\<close>

theorem Append_singular_is_Replace_of_last_value:
  assumes "Type (Rel a) = HasOne \<or> Type (Rel a) = BelongsTo" and "vals \<noteq> []"
    and "Error a = None" and "owners a = One ow"
    and "Indirect (last vals) = VStruct n fs" and "IndirectFieldType (Rel a) = TStruct n"
  shows "Append L vals a = Replace L [last vals] a
         \<and> (\<exists>a'. Append L vals a = Inr a' \<and> Error a' = None
                  \<and> owners a' = One (ow\<lparr>relation := VStruct n fs\<rparr>))"
proof -
  let ?b = "a\<lparr>owners := One (ow\<lparr>relation := VStruct n fs\<rparr>), Error := None\<rparr>"
  have all: "saveOne True 0 vals a = Inr ?b"
    by (rule saveOne_last_value [OF assms(1,4,2,5,6)])
  have one: "saveOne True 0 [last vals] a = Inr ?b"
    by (rule saveOne_last_value [OF assms(1,4)]) (use assms(5,6) in simp_all)
  have sa: "saveAssociation L True vals a = Inr (Save L (zero_at ?b Self) ?b)"
    using assms(2,4) all by (simp add: saveAssociation_def bindP_def)
  have sl: "saveAssociation L True [last vals] a = Inr (Save L (zero_at ?b Self) ?b)"
    using assms(4) one by (simp add: saveAssociation_def bindP_def)
  have ap: "Append L vals a = Replace L vals a"
    using assms(1,2) by (auto simp: Append_def Replace_def)
  have eq: "Replace L vals a = Replace L [last vals] a"
    using sa sl by (simp add: Replace_def)
  have "\<exists>a'. Replace L vals a = Inr a' \<and> Error a' = None
              \<and> owners a' = One (ow\<lparr>relation := VStruct n fs\<rparr>)"
    using assms(1,3) sa
    by (auto simp: Replace_def bindP_def Save_def replaceHas_def Let_def)
  with ap eq show ?thesis by simp
qed

theorem Append_singular_is_Replace_of_last_value_witness:
  "Type (Rel petHandle) = HasOne
   \<and> [VNil (TStruct ''Pet''), entity ''Pet'' 1, entity ''Pet'' 2] \<noteq> []
   \<and> Error petHandle = None
   \<and> owners petHandle = One (user 1 (entity ''Pet'' 0))
   \<and> Indirect (entity ''Pet'' 2) = VStruct ''Pet'' [(''ID'', 2)]
   \<and> IndirectFieldType (Rel petHandle) = TStruct ''Pet''
   \<and> Append okLayer [VNil (TStruct ''Pet''), entity ''Pet'' 1, entity ''Pet'' 2] petHandle
       = Replace okLayer [entity ''Pet'' 2] petHandle
   \<and> error_of (Append okLayer [VNil (TStruct ''Pet''), entity ''Pet'' 1, entity ''Pet'' 2] petHandle)
       = Inr None
   \<and> owners_of (Append okLayer [VNil (TStruct ''Pet''), entity ''Pet'' 1, entity ''Pet'' 2] petHandle)
       = Inr (One (user 1 (entity ''Pet'' 2)))"
proof -
  let ?vals = "[VNil (TStruct ''Pet''), entity ''Pet'' 1, entity ''Pet'' 2]"
  have t: "Type (Rel petHandle) = HasOne" by code_simp
  have e: "Error petHandle = None" by code_simp
  have o: "owners petHandle = One (user 1 (entity ''Pet'' 0))" by code_simp
  have f: "IndirectFieldType (Rel petHandle) = TStruct ''Pet''" by code_simp
  have l: "Indirect (last ?vals) = VStruct ''Pet'' [(''ID'', 2)]" by (simp add: entity_def)
  have i: "Indirect (entity ''Pet'' 2) = VStruct ''Pet'' [(''ID'', 2)]" by (simp add: entity_def)
  have ne: "?vals \<noteq> []" by simp
  from Append_singular_is_Replace_of_last_value [OF disjI1 [OF t] ne e o l f, of okLayer]
  obtain a' where eq: "Append okLayer ?vals petHandle = Replace okLayer [last ?vals] petHandle"
    and a': "Append okLayer ?vals petHandle = Inr a'"
    and ea: "Error a' = None"
    and oa: "owners a' = One ((user 1 (entity ''Pet'' 0))\<lparr>relation := VStruct ''Pet'' [(''ID'', 2)]\<rparr>)"
    by blast
  from eq have eq': "Append okLayer ?vals petHandle = Replace okLayer [entity ''Pet'' 2] petHandle"
    by simp
  have p1: "error_of (Append okLayer ?vals petHandle) = Inr None"
    by (simp add: a' ea error_of_def)
  have p2: "owners_of (Append okLayer ?vals petHandle) = Inr (One (user 1 (entity ''Pet'' 2)))"
    unfolding owners_of_def a' by (simp add: oa user_def entity_def)
  from t ne e o i f eq' p1 p2 show ?thesis by blast
qed

text \<open>
  C6, as the claim states it, fails: \<open>Append\<close> of pet 1 and pet 2 to the single user 1
  leaves pet 2 in the field, where \<open>Replace\<close> of the first value alone leaves pet 1.
\<close>

theorem Append_not_Replace_of_first_value:
  "owners_of (Append okLayer [entity ''Pet'' 1, entity ''Pet'' 2] petHandle)
     = Inr (One (user 1 (entity ''Pet'' 2)))
   \<and> owners_of (Replace okLayer [entity ''Pet'' 1] petHandle)
     = Inr (One (user 1 (entity ''Pet'' 1)))
   \<and> owners_of (Append okLayer [entity ''Pet'' 1, entity ''Pet'' 2] petHandle)
     \<noteq> owners_of (Replace okLayer [entity ''Pet'' 1] petHandle)"
  by code_simp

end
